theory Spec2Isabelle
  imports Main
begin

section \<open>Errors, log lines and time\<close>

text \<open>
  A Go \<^verbatim>\<open>error\<close> that is not nil is a value of \<open>error\<close>; a result of type
  \<^verbatim>\<open>error\<close> is an \<open>error option\<close>, \<open>None\<close> being nil. The constructors are
  the kinds that discovery.go tells apart: \<^verbatim>\<open>trace.BadParameter\<close>,
  \<^verbatim>\<open>trace.NotFound\<close> (recognised by \<^verbatim>\<open>trace.IsNotFound\<close>), the package variable
  \<^verbatim>\<open>errNoInstances\<close> (recognised by \<^verbatim>\<open>errors.Is\<close>), an \<^verbatim>\<open>awserr.Error\<close>
  with its code, and any other failure. \<^verbatim>\<open>trace.Wrap\<close> keeps the kind of the error
  it wraps and maps nil to nil: where its argument is known not to be nil it is left
  out, and where the argument can be nil it is \<open>Wrap\<close>.
\<close>

datatype error =
    BadParameter string
  | NotFound string
  | ErrNoInstances
  | AwsErr string
  | Failure string

definition errNoInstances :: error where
  "errNoInstances = ErrNoInstances"

definition Wrap :: "error option \<Rightarrow> error option" where
  "Wrap err = (case err of None \<Rightarrow> None | Some e \<Rightarrow> Some e)"

definition IsNotFound :: "error \<Rightarrow> bool" where
  "IsNotFound err = (case err of NotFound _ \<Rightarrow> True | _ \<Rightarrow> False)"

definition ErrCodeInvalidInstanceId :: string where
  "ErrCodeInvalidInstanceId = ''InvalidInstanceId''"

datatype level = DebugLevel | WarnLevel | ErrorLevel

type_synonym logline = "level \<times> string"

text \<open>
  A \<^verbatim>\<open>time.Time\<close> is the number of nanoseconds since the zero \<^verbatim>\<open>Time\<close>
  (January 1 of year 1, UTC), the earliest instant a rotation timestamp carries:
  \<^verbatim>\<open>var t time.Time\<close> is 0 and \<^verbatim>\<open>a.After(b)\<close> is \<open>b < a\<close>.
\<close>

type_synonym time = nat

definition After :: "time \<Rightarrow> time \<Rightarrow> bool" where
  "After a b = (b < a)"

section \<open>Matcher partitioning (discovery.go, splitSlice and splitMatchers)\<close>

text \<open>
  A matcher is any value of the Go interface \<^verbatim>\<open>types.Matcher\<close>: it has its list of
  types (\<^verbatim>\<open>GetTypes\<close>) and every other field of the concrete matcher. The record
  below is extensible: the fields of \<^verbatim>\<open>AWSMatcher\<close>, \<^verbatim>\<open>AzureMatcher\<close>,
  \<^verbatim>\<open>GCPMatcher\<close> beyond Types live in the extension part, so that the generic
  \<^verbatim>\<open>splitMatchers[T types.Matcher]\<close> is a function on any extension.
\<close>

record matcher =
  Types :: "string list"

definition GetTypes :: "'z matcher_scheme \<Rightarrow> string list" where
  "GetTypes m = Types m"

text \<open>
  Modelled from the spec: \<^verbatim>\<open>CopyWithTypes\<close> is a method of the matcher types of
  api/types, which are not among the sources. The specification says that the new
  matcher instance contains only the given types, all other fields copied verbatim.
\<close>

definition CopyWithTypes :: "'z matcher_scheme \<Rightarrow> string list \<Rightarrow> 'z matcher_scheme" where
  "CopyWithTypes m ts = m\<lparr>Types := ts\<rparr>"

text \<open>
  The loop of \<^verbatim>\<open>splitSlice\<close>: the two named results start as nil slices and every
  element is appended to one of them.
\<close>

fun splitSlice_loop ::
  "string list \<Rightarrow> (string \<Rightarrow> bool) \<Rightarrow> string list \<times> string list \<Rightarrow> string list \<times> string list"
where
  "splitSlice_loop [] check (split, other) = (split, other)"
| "splitSlice_loop (e # ss) check (split, other) =
     (if check e then splitSlice_loop ss check (split @ [e], other)
      else splitSlice_loop ss check (split, other @ [e]))"

definition splitSlice :: "string list \<Rightarrow> (string \<Rightarrow> bool) \<Rightarrow> string list \<times> string list" where
  "splitSlice ss check = splitSlice_loop ss check ([], [])"

fun splitMatchers_loop ::
  "'z matcher_scheme list \<Rightarrow> (string \<Rightarrow> bool) \<Rightarrow>
   'z matcher_scheme list \<times> 'z matcher_scheme list \<Rightarrow>
   'z matcher_scheme list \<times> 'z matcher_scheme list"
where
  "splitMatchers_loop [] matcherTypeCheck (split, other) = (split, other)"
| "splitMatchers_loop (m # matchers) matcherTypeCheck (split, other) =
     (case splitSlice (GetTypes m) matcherTypeCheck of
        (splitTypes, otherTypes) \<Rightarrow>
          splitMatchers_loop matchers matcherTypeCheck
            (if length splitTypes > 0 then split @ [CopyWithTypes m splitTypes] else split,
             if length otherTypes > 0 then other @ [CopyWithTypes m otherTypes] else other))"

definition splitMatchers ::
  "'z matcher_scheme list \<Rightarrow> (string \<Rightarrow> bool) \<Rightarrow> 'z matcher_scheme list \<times> 'z matcher_scheme list"
where
  "splitMatchers matchers matcherTypeCheck = splitMatchers_loop matchers matcherTypeCheck ([], [])"


section \<open>The inventory of known nodes\<close>

text \<open>
  A node of the inventory (\<^verbatim>\<open>types.Server\<close>, read through \<^verbatim>\<open>nodeWatcher.GetNodes\<close>):
  its sub-kind, its labels and the rotation state it recorded. \<open>Labels\<close> is the label map
  that both \<^verbatim>\<open>GetAllLabels\<close> and \<^verbatim>\<open>GetLabel\<close> read.
\<close>

record Rotation =
  State :: string
  Started :: time
  LastRotated :: time

record Node =
  SubKind :: string
  Labels :: "string \<rightharpoonup> string"
  NodeRotation :: Rotation

definition GetLabel :: "Node \<Rightarrow> string \<Rightarrow> string option" where
  "GetLabel n key = Labels n key"

text \<open>
  Modelled from the spec: the label names, the sub-kind of an OpenSSH node, the state of
  a rotation in progress, the types of the certificate authorities and the kind of a
  discovery configuration are constants of api/types, which is not among the sources.
  The specification names them by their role only; each is a fixed string here, and no
  property below depends on which string it is.
\<close>

definition AWSAccountIDLabel :: string where
  "AWSAccountIDLabel = ''teleport.dev/account-id''"

definition AWSInstanceIDLabel :: string where
  "AWSInstanceIDLabel = ''teleport.dev/instance-id''"

definition SubscriptionIDLabel :: string where
  "SubscriptionIDLabel = ''teleport.internal/subscription-id''"

definition VMIDLabel :: string where
  "VMIDLabel = ''teleport.internal/vm-id''"

definition ProjectIDLabel :: string where
  "ProjectIDLabel = ''teleport.internal/project-id''"

definition ZoneLabel :: string where
  "ZoneLabel = ''teleport.internal/zone''"

definition NameLabel :: string where
  "NameLabel = ''teleport.internal/name''"

definition SubKindOpenSSHNode :: string where
  "SubKindOpenSSHNode = ''openssh''"

definition RotationStateInProgress :: string where
  "RotationStateInProgress = ''in_progress''"

text \<open>
  Modelled from the spec: \<^verbatim>\<open>types.MatchLabels\<close> is a function of api/types, which is
  not among the sources. The specification says that an instance is removed when its
  identity already appears among the known resources: a node matches the given labels
  when it carries every one of them with the given value. The wanted labels are a list
  of key and value pairs, as the map literals of the callers write them.
\<close>

definition MatchLabels :: "Node \<Rightarrow> (string \<times> string) list \<Rightarrow> bool" where
  "MatchLabels node wanted = list_all (\<lambda>(key, val). GetLabel node key = Some val) wanted"

text \<open>
  \<^verbatim>\<open>nodeWatcher.GetNodes(ctx, fn)\<close> returns the nodes of the watcher's current
  collection that satisfy \<^verbatim>\<open>fn\<close>.
\<close>

definition GetNodes :: "Node list \<Rightarrow> (Node \<Rightarrow> bool) \<Rightarrow> Node list" where
  "GetNodes collection fn = filter fn collection"

section \<open>Discovered instances and install requests\<close>

text \<open>
  The batches of package lib/srv/server and the requests handed to the installers, with
  the fields discovery.go reads and writes. The fields of a request carry the prefix of
  its provider, since a field name is declared once.
\<close>

record EC2Instance =
  InstanceID :: string

record EC2Instances =
  Region :: string
  DocumentName :: string
  Parameters :: "string list"
  AccountID :: string
  Instances :: "EC2Instance list"
  Rotation :: bool

record 'c SSMRunRequest =
  ssm_DocumentName :: string
  ssm_SSM :: 'c
  ssm_Instances :: "EC2Instance list"
  ssm_Params :: "string list"
  ssm_Region :: string
  ssm_AccountID :: string

record VirtualMachineProperties =
  VMID :: "string option"

record VirtualMachine =
  vm_Name :: "string option"
  Properties :: "VirtualMachineProperties option"

record AzureInstances =
  az_Region :: string
  SubscriptionID :: string
  ResourceGroup :: string
  az_Parameters :: "string list"
  az_ScriptName :: string
  az_PublicProxyAddr :: string
  ClientID :: string
  az_Instances :: "VirtualMachine list"

record 'c AzureRunRequest =
  azr_Client :: 'c
  azr_Instances :: "VirtualMachine list"
  azr_Region :: string
  azr_ResourceGroup :: string
  azr_Params :: "string list"
  azr_ScriptName :: string
  azr_PublicProxyAddr :: string
  azr_ClientID :: string

record GCPInstance =
  gi_ProjectID :: string
  gi_Zone :: string
  gi_Name :: string

record GCPInstances =
  gcp_Zone :: string
  gcp_ProjectID :: string
  gcp_ScriptName :: string
  gcp_PublicProxyAddr :: string
  gcp_Parameters :: "string list"
  gcp_Instances :: "GCPInstance list"

record 'c GCPRunRequest =
  gcr_Client :: 'c
  gcr_Instances :: "GCPInstance list"
  gcr_ProjectID :: string
  gcr_Zone :: string
  gcr_Params :: "string list"
  gcr_ScriptName :: string
  gcr_PublicProxyAddr :: string

definition StringValue :: "string option \<Rightarrow> string" where
  "StringValue p = (case p of None \<Rightarrow> [] | Some v \<Rightarrow> v)"

section \<open>Matchers, discovery configurations and watcher events\<close>

text \<open>
  The concrete matchers extend \<open>matcher\<close> by the fields that discovery.go reads.
\<close>

record AssumeRole =
  RoleARN :: string
  ExternalID :: string

record AWSMatcher = matcher +
  aws_Regions :: "string list"
  aws_Tags :: "(string \<times> string list) list"
  aws_AssumeRole :: "AssumeRole option"

record AzureMatcher = matcher +
  Subscriptions :: "string list"
  ResourceGroups :: "string list"
  azm_Regions :: "string list"
  ResourceTags :: "(string \<times> string list) list"

record GCPMatcher = matcher +
  Locations :: "string list"
  ProjectIDs :: "string list"
  gcm_Labels :: "(string \<times> string list) list"

record KubernetesMatcher = matcher +
  Namespaces :: "string list"
  kube_Labels :: "(string \<times> string list) list"

record Matchers =
  AWS :: "AWSMatcher list"
  Azure :: "AzureMatcher list"
  GCP :: "GCPMatcher list"
  Kubernetes :: "KubernetesMatcher list"

definition IsEmpty :: "Matchers \<Rightarrow> bool" where
  "IsEmpty m = (length (GCP m) = 0 \<and> length (AWS m) = 0 \<and> length (Azure m) = 0
                \<and> length (Kubernetes m) = 0)"

text \<open>
  A discovery configuration (\<^verbatim>\<open>discoveryconfig.DiscoveryConfig\<close>): its name, its
  discovery group and the matchers of its \<^verbatim>\<open>Spec\<close>.
\<close>

record DiscoveryConfig =
  dc_Name :: string
  dc_DiscoveryGroup :: string
  dc_AWS :: "AWSMatcher list"
  dc_Azure :: "AzureMatcher list"
  dc_GCP :: "GCPMatcher list"
  dc_Kube :: "KubernetesMatcher list"

text \<open>
  The resource of an event is a discovery configuration or a resource of another Go
  type, of which only the name is read.
\<close>

datatype Resource = DiscoveryConfigResource DiscoveryConfig | OtherResource string

definition GetName :: "Resource \<Rightarrow> string" where
  "GetName r = (case r of DiscoveryConfigResource dc \<Rightarrow> dc_Name dc | OtherResource name \<Rightarrow> name)"

datatype OpType = OpUnreliable | OpInvalid | OpInit | OpGet | OpPut | OpDelete

record Event =
  Type :: OpType
  Resource :: Resource

text \<open>
  Modelled from the spec: the subscription (\<^verbatim>\<open>types.Watcher\<close>) is an interface of
  api/types, which is not among the sources. The specification gives it an event
  channel, a done-channel and an error. A watcher is the list of what the
  \<^verbatim>\<open>select\<close> statements over its two channels receive, in order: an event, or the
  done-channel firing together with what \<^verbatim>\<open>Error()\<close> returns then, a Go error
  that may be nil (\<open>None\<close>). Once the list is used up the \<^verbatim>\<open>select\<close> blocks.
\<close>

datatype WatcherSignal = EventSignal Event | DoneSignal "error option"

type_synonym Watcher = "WatcherSignal list"

definition KindDiscoveryConfig :: string where
  "KindDiscoveryConfig = ''discovery_config''"

section \<open>The server and its collaborators\<close>

text \<open>
  The collaborators are outside the sources; each is a function from what it is given to
  what it returns. An installer and the usage-event sink may answer differently from one
  call to the next, so they are also given the calls made so far.
\<close>

record 'c Clients =
  GetAWSSSMClient :: "string \<Rightarrow> error + 'c"
  GetAzureRunCommandClient :: "string \<Rightarrow> error + 'c"
  GetGCPInstancesClient :: "error + 'c"

record 'ev DiscoveryAccessPoint =
  SubmitUsageEvent :: "'ev list \<Rightarrow> 'ev \<Rightarrow> error option"
  GetCertAuthority :: "string \<Rightarrow> string \<Rightarrow> error + Rotation"
  NewWatcher :: "string list \<Rightarrow> error + Watcher"

text \<open>
  The methods of the batches that package lib/srv/server defines (\<^verbatim>\<open>ServerInfos\<close> and
  \<^verbatim>\<open>MakeEvents\<close>) are parameters too. \<^verbatim>\<open>MakeEvents\<close> returns a Go map from event
  name to event; it is given as the list of its entries in the order in which the
  \<^verbatim>\<open>range\<close> of emitUsageEvents visits them.
\<close>

record ('si, 'ev) ServerPkg =
  ServerInfos :: "EC2Instances \<Rightarrow> error + 'si list"
  EC2MakeEvents :: "EC2Instances \<Rightarrow> (string \<times> 'ev) list"
  AzureMakeEvents :: "AzureInstances \<Rightarrow> (string \<times> 'ev) list"
  GCPMakeEvents :: "GCPInstances \<Rightarrow> (string \<times> 'ev) list"

text \<open>
  The server: the fields of the Go struct (and of its embedded \<^verbatim>\<open>Config\<close>) that the
  modelled methods use, followed by what the methods did to the collaborators: the
  requests every installer was run with, the events submitted to the sink (with the
  name each had in the batch), the server infos queued for the label reconciler, the
  batches sent on the CA rotation channel, the subscriptions opened at the access point
  (each with the kinds it watches) and the lines logged.
\<close>

record ('c, 'si, 'ev, 'f) Server =
  CloudClients :: "'c Clients"
  AccessPoint :: "'ev DiscoveryAccessPoint"
  DiscoveryGroup :: string
  ClusterName :: string
  nodeWatcher :: "Node list"
  databaseFetchers :: "'f list"
  dynamicMatcherWatcher :: "Watcher option"
  dynamicDatabaseFetchers :: "string \<rightharpoonup> 'f list"
  ec2Installer :: "'c SSMRunRequest list \<Rightarrow> 'c SSMRunRequest \<Rightarrow> error option"
  azureInstaller :: "'c AzureRunRequest list \<Rightarrow> 'c AzureRunRequest \<Rightarrow> error option"
  gcpInstaller :: "'c GCPRunRequest list \<Rightarrow> 'c GCPRunRequest \<Rightarrow> error option"
  usageEventCache :: "string set"
  ec2Runs :: "'c SSMRunRequest list"
  azureRuns :: "'c AzureRunRequest list"
  gcpRuns :: "'c GCPRunRequest list"
  submitted :: "(string \<times> 'ev) list"
  reconcilerQueue :: "'si list list"
  caRotationCh :: "Node list list"
  watchersOpened :: "string list list"
  Log :: "logline list"

section \<open>Usage events (discovery.go, emitUsageEvents)\<close>

fun emitUsageEvents ::
  "('c, 'si, 'ev, 'f) Server \<Rightarrow> (string \<times> 'ev) list \<Rightarrow> error option \<times> ('c, 'si, 'ev, 'f) Server"
where
  "emitUsageEvents s [] = (None, s)"
| "emitUsageEvents s ((name, event) # events) =
     (if name \<in> usageEventCache s then emitUsageEvents s events
      else
        let s1 = s\<lparr>usageEventCache := insert name (usageEventCache s)\<rparr>;
            res = SubmitUsageEvent (AccessPoint s1) (map snd (submitted s1)) event;
            s2 = s1\<lparr>submitted := submitted s1 @ [(name, event)]\<rparr>
        in (case res of
              Some err \<Rightarrow> (Some err, s2)
            | None \<Rightarrow> emitUsageEvents s2 events))"

text \<open>
  Several calls of emitUsageEvents, one after the other, on the batches of events
  \<open>bs\<close>. The callers log an error of a call and go on, so the next call starts from
  the state the previous one left.
\<close>

fun emitUsageEvents_calls ::
  "('c, 'si, 'ev, 'f) Server \<Rightarrow> (string \<times> 'ev) list list \<Rightarrow> ('c, 'si, 'ev, 'f) Server"
where
  "emitUsageEvents_calls s [] = s"
| "emitUsageEvents_calls s (b # bs) = emitUsageEvents_calls (snd (emitUsageEvents s b)) bs"

text \<open>The calls of the sink made for an event name.\<close>

definition sink_calls :: "('c, 'si, 'ev, 'f) Server \<Rightarrow> string \<Rightarrow> (string \<times> 'ev) list" where
  "sink_calls s name = filter (\<lambda>e. fst e = name) (submitted s)"

section \<open>Installer dispatch for EC2 (discovery.go, handleEC2Instances)\<close>

text \<open>
  A log line is its level and its format string. The inner loop of
  filterExistingEC2Nodes looks for a node that matches the instance; the outer loop, with
  its \<^verbatim>\<open>continue outer\<close>, keeps the instances for which there is none.
\<close>

definition logf :: "level \<Rightarrow> string \<Rightarrow> ('c, 'si, 'ev, 'f) Server \<Rightarrow> ('c, 'si, 'ev, 'f) Server" where
  "logf lvl msg s = s\<lparr>Log := Log s @ [(lvl, msg)]\<rparr>"

fun matchesEC2Node :: "Node list \<Rightarrow> string \<Rightarrow> EC2Instance \<Rightarrow> bool" where
  "matchesEC2Node [] accountID inst = False"
| "matchesEC2Node (node # nodes) accountID inst =
     (if MatchLabels node [(AWSAccountIDLabel, accountID), (AWSInstanceIDLabel, InstanceID inst)]
      then True
      else matchesEC2Node nodes accountID inst)"

fun filterEC2_loop :: "Node list \<Rightarrow> string \<Rightarrow> EC2Instance list \<Rightarrow> EC2Instance list \<Rightarrow> EC2Instance list" where
  "filterEC2_loop nodes accountID [] filtered = filtered"
| "filterEC2_loop nodes accountID (inst # insts) filtered =
     (if matchesEC2Node nodes accountID inst
      then filterEC2_loop nodes accountID insts filtered
      else filterEC2_loop nodes accountID insts (filtered @ [inst]))"

definition filterExistingEC2Nodes :: "('c, 'si, 'ev, 'f) Server \<Rightarrow> EC2Instances \<Rightarrow> EC2Instances" where
  "filterExistingEC2Nodes s instances =
     (let nodes = GetNodes (nodeWatcher s)
            (\<lambda>n. Labels n AWSAccountIDLabel \<noteq> None \<and> Labels n AWSInstanceIDLabel \<noteq> None)
      in instances\<lparr>Instances := filterEC2_loop nodes (AccountID instances) (Instances instances) []\<rparr>)"

definition handleEC2Instances ::
  "('si, 'ev) ServerPkg \<Rightarrow> ('c, 'si, 'ev, 'f) Server \<Rightarrow> EC2Instances \<Rightarrow>
   error option \<times> ('c, 'si, 'ev, 'f) Server"
where
  "handleEC2Instances pkg s instances =
     (case GetAWSSSMClient (CloudClients s) (Region instances) of
        Inl err \<Rightarrow> (Some err, s)
      | Inr ec2Client \<Rightarrow>
          (case ServerInfos pkg instances of
             Inl err \<Rightarrow> (Some err, s)
           | Inr serverInfos \<Rightarrow>
               let s1 = s\<lparr>reconcilerQueue := reconcilerQueue s @ [serverInfos]\<rparr>;
                   instances1 = (if \<not> Rotation instances
                                 then filterExistingEC2Nodes s1 instances else instances)
               in if length (Instances instances1) = 0
                  then (Some (NotFound ''all fetched nodes already enrolled''), s1)
                  else
                    let s2 = logf DebugLevel
                               ''Running Teleport installation on these instances: AccountID: %s, Instances: %s'' s1;
                        req = \<lparr>ssm_DocumentName = DocumentName instances1,
                               ssm_SSM = ec2Client,
                               ssm_Instances = Instances instances1,
                               ssm_Params = Parameters instances1,
                               ssm_Region = Region instances1,
                               ssm_AccountID = AccountID instances1\<rparr>;
                        res = ec2Installer s2 (ec2Runs s2) req;
                        s3 = s2\<lparr>ec2Runs := ec2Runs s2 @ [req]\<rparr>
                    in (case res of
                          Some err \<Rightarrow> (Some err, s3)
                        | None \<Rightarrow>
                            (case emitUsageEvents s3 (EC2MakeEvents pkg instances1) of
                               (Some err, s4) \<Rightarrow> (None, logf DebugLevel ''Error emitting usage event.'' s4)
                             | (None, s4) \<Rightarrow> (None, s4)))))"

definition logHandleInstancesErr :: "('c, 'si, 'ev, 'f) Server \<Rightarrow> error \<Rightarrow> ('c, 'si, 'ev, 'f) Server" where
  "logHandleInstancesErr s err =
     (if (case err of AwsErr code \<Rightarrow> code = ErrCodeInvalidInstanceId | _ \<Rightarrow> False)
      then logf ErrorLevel ''SSM SendCommand failed with ErrCodeInvalidInstanceId.'' s
      else if IsNotFound err
      then logf DebugLevel ''All discovered EC2 instances are already part of the cluster.'' s
      else logf ErrorLevel ''Failed to enroll discovered EC2 instances.'' s)"

text \<open>
  The receiving loop of handleEC2Discovery on the batches that arrive on the watcher's
  channel, in their order; the loop ends when the context is done, here when the list
  is used up.
\<close>

fun handleEC2Discovery ::
  "('si, 'ev) ServerPkg \<Rightarrow> ('c, 'si, 'ev, 'f) Server \<Rightarrow> EC2Instances list \<Rightarrow> ('c, 'si, 'ev, 'f) Server"
where
  "handleEC2Discovery pkg s [] = s"
| "handleEC2Discovery pkg s (ec2Instances # rest) =
     (let s1 = logf DebugLevel
                 ''EC2 instances discovered (AccountID: %s, Instances: %v), starting installation'' s
      in (case handleEC2Instances pkg s1 ec2Instances of
            (Some err, s2) \<Rightarrow> handleEC2Discovery pkg (logHandleInstancesErr s2 err) rest
          | (None, s2) \<Rightarrow> handleEC2Discovery pkg s2 rest))"

section \<open>Installer dispatch for Azure and GCP\<close>

fun matchesAzureNode :: "Node list \<Rightarrow> string \<Rightarrow> VirtualMachine \<Rightarrow> bool" where
  "matchesAzureNode [] subscriptionID inst = False"
| "matchesAzureNode (node # nodes) subscriptionID inst =
     (let vmID = (case Properties inst of None \<Rightarrow> [] | Some props \<Rightarrow> StringValue (VMID props))
      in if MatchLabels node [(SubscriptionIDLabel, subscriptionID), (VMIDLabel, vmID)]
         then True
         else matchesAzureNode nodes subscriptionID inst)"

fun filterAzure_loop ::
  "Node list \<Rightarrow> string \<Rightarrow> VirtualMachine list \<Rightarrow> VirtualMachine list \<Rightarrow> VirtualMachine list"
where
  "filterAzure_loop nodes subscriptionID [] filtered = filtered"
| "filterAzure_loop nodes subscriptionID (inst # insts) filtered =
     (if matchesAzureNode nodes subscriptionID inst
      then filterAzure_loop nodes subscriptionID insts filtered
      else filterAzure_loop nodes subscriptionID insts (filtered @ [inst]))"

definition filterExistingAzureNodes :: "('c, 'si, 'ev, 'f) Server \<Rightarrow> AzureInstances \<Rightarrow> AzureInstances" where
  "filterExistingAzureNodes s instances =
     (let nodes = GetNodes (nodeWatcher s)
            (\<lambda>n. Labels n SubscriptionIDLabel \<noteq> None \<and> Labels n VMIDLabel \<noteq> None)
      in instances\<lparr>az_Instances :=
           filterAzure_loop nodes (SubscriptionID instances) (az_Instances instances) []\<rparr>)"

definition handleAzureInstances ::
  "('si, 'ev) ServerPkg \<Rightarrow> ('c, 'si, 'ev, 'f) Server \<Rightarrow> AzureInstances \<Rightarrow>
   error option \<times> ('c, 'si, 'ev, 'f) Server"
where
  "handleAzureInstances pkg s instances =
     (case GetAzureRunCommandClient (CloudClients s) (SubscriptionID instances) of
        Inl err \<Rightarrow> (Some err, s)
      | Inr client \<Rightarrow>
          let instances1 = filterExistingAzureNodes s instances
          in if length (az_Instances instances1) = 0
             then (Some errNoInstances, s)
             else
               let s2 = logf DebugLevel
                          ''Running Teleport installation on these virtual machines: SubscriptionID: %s, VMs: %s'' s;
                   req = \<lparr>azr_Client = client,
                          azr_Instances = az_Instances instances1,
                          azr_Region = az_Region instances1,
                          azr_ResourceGroup = ResourceGroup instances1,
                          azr_Params = az_Parameters instances1,
                          azr_ScriptName = az_ScriptName instances1,
                          azr_PublicProxyAddr = az_PublicProxyAddr instances1,
                          azr_ClientID = ClientID instances1\<rparr>;
                   res = azureInstaller s2 (azureRuns s2) req;
                   s3 = s2\<lparr>azureRuns := azureRuns s2 @ [req]\<rparr>
               in (case res of
                     Some err \<Rightarrow> (Some err, s3)
                   | None \<Rightarrow>
                       (case emitUsageEvents s3 (AzureMakeEvents pkg instances1) of
                          (Some err, s4) \<Rightarrow> (None, logf DebugLevel ''Error emitting usage event.'' s4)
                        | (None, s4) \<Rightarrow> (None, s4))))"

fun handleAzureDiscovery ::
  "('si, 'ev) ServerPkg \<Rightarrow> ('c, 'si, 'ev, 'f) Server \<Rightarrow> AzureInstances list \<Rightarrow> ('c, 'si, 'ev, 'f) Server"
where
  "handleAzureDiscovery pkg s [] = s"
| "handleAzureDiscovery pkg s (azureInstances # rest) =
     (let s1 = logf DebugLevel
                 ''Azure instances discovered (SubscriptionID: %s, Instances: %v), starting installation'' s
      in (case handleAzureInstances pkg s1 azureInstances of
            (Some err, s2) \<Rightarrow>
              handleAzureDiscovery pkg
                (if err = errNoInstances
                 then logf DebugLevel ''All discovered Azure VMs are already part of the cluster.'' s2
                 else logf ErrorLevel ''Failed to enroll discovered Azure VMs.'' s2) rest
          | (None, s2) \<Rightarrow> handleAzureDiscovery pkg s2 rest))"

fun matchesGCPNode :: "Node list \<Rightarrow> GCPInstance \<Rightarrow> bool" where
  "matchesGCPNode [] inst = False"
| "matchesGCPNode (node # nodes) inst =
     (if MatchLabels node
           [(ProjectIDLabel, gi_ProjectID inst), (ZoneLabel, gi_Zone inst), (NameLabel, gi_Name inst)]
      then True
      else matchesGCPNode nodes inst)"

fun filterGCP_loop :: "Node list \<Rightarrow> GCPInstance list \<Rightarrow> GCPInstance list \<Rightarrow> GCPInstance list" where
  "filterGCP_loop nodes [] filtered = filtered"
| "filterGCP_loop nodes (inst # insts) filtered =
     (if matchesGCPNode nodes inst
      then filterGCP_loop nodes insts filtered
      else filterGCP_loop nodes insts (filtered @ [inst]))"

definition filterExistingGCPNodes :: "('c, 'si, 'ev, 'f) Server \<Rightarrow> GCPInstances \<Rightarrow> GCPInstances" where
  "filterExistingGCPNodes s instances =
     (let nodes = GetNodes (nodeWatcher s)
            (\<lambda>n. Labels n ProjectIDLabel \<noteq> None \<and> Labels n ZoneLabel \<noteq> None
                  \<and> Labels n NameLabel \<noteq> None)
      in instances\<lparr>gcp_Instances := filterGCP_loop nodes (gcp_Instances instances) []\<rparr>)"

definition handleGCPInstances ::
  "('si, 'ev) ServerPkg \<Rightarrow> ('c, 'si, 'ev, 'f) Server \<Rightarrow> GCPInstances \<Rightarrow>
   error option \<times> ('c, 'si, 'ev, 'f) Server"
where
  "handleGCPInstances pkg s instances =
     (case GetGCPInstancesClient (CloudClients s) of
        Inl err \<Rightarrow> (Some err, s)
      | Inr client \<Rightarrow>
          let instances1 = filterExistingGCPNodes s instances
          in if length (gcp_Instances instances1) = 0
             then (Some errNoInstances, s)
             else
               let s2 = logf DebugLevel
                          ''Running Teleport installation on these virtual machines: ProjectID: %s, VMs: %s'' s;
                   req = \<lparr>gcr_Client = client,
                          gcr_Instances = gcp_Instances instances1,
                          gcr_ProjectID = gcp_ProjectID instances1,
                          gcr_Zone = gcp_Zone instances1,
                          gcr_Params = gcp_Parameters instances1,
                          gcr_ScriptName = gcp_ScriptName instances1,
                          gcr_PublicProxyAddr = gcp_PublicProxyAddr instances1\<rparr>;
                   res = gcpInstaller s2 (gcpRuns s2) req;
                   s3 = s2\<lparr>gcpRuns := gcpRuns s2 @ [req]\<rparr>
               in (case res of
                     Some err \<Rightarrow> (Some err, s3)
                   | None \<Rightarrow>
                       (case emitUsageEvents s3 (GCPMakeEvents pkg instances1) of
                          (Some err, s4) \<Rightarrow> (None, logf DebugLevel ''Error emitting usage event.'' s4)
                        | (None, s4) \<Rightarrow> (None, s4))))"

fun handleGCPDiscovery ::
  "('si, 'ev) ServerPkg \<Rightarrow> ('c, 'si, 'ev, 'f) Server \<Rightarrow> GCPInstances list \<Rightarrow> ('c, 'si, 'ev, 'f) Server"
where
  "handleGCPDiscovery pkg s [] = s"
| "handleGCPDiscovery pkg s (gcpInstances # rest) =
     (let s1 = logf DebugLevel
                 ''GCP instances discovered (ProjectID: %s, Instances %v), starting installation'' s
      in (case handleGCPInstances pkg s1 gcpInstances of
            (Some err, s2) \<Rightarrow>
              handleGCPDiscovery pkg
                (if err = errNoInstances
                 then logf DebugLevel ''All discovered GCP VMs are already part of the cluster.'' s2
                 else logf ErrorLevel ''Failed to enroll discovered GCP VMs.'' s2) rest
          | (None, s2) \<Rightarrow> handleGCPDiscovery pkg s2 rest))"

section \<open>CA rotation (discovery.go, watchCARotation)\<close>

definition OpenSSHCA :: string where
  "OpenSSHCA = ''openssh''"

definition HostCA :: string where
  "HostCA = ''host''"

fun getMostRecentRotationForCAs_loop ::
  "('c, 'si, 'ev, 'f) Server \<Rightarrow> string list \<Rightarrow> time \<Rightarrow> error + time"
where
  "getMostRecentRotationForCAs_loop s [] mostRecentUpdate = Inr mostRecentUpdate"
| "getMostRecentRotationForCAs_loop s (caType # caTypes) mostRecentUpdate =
     (case GetCertAuthority (AccessPoint s) caType (ClusterName s) of
        Inl err \<Rightarrow> Inl err
      | Inr caRot \<Rightarrow>
          let m1 = (if State caRot = RotationStateInProgress \<and> After (Started caRot) mostRecentUpdate
                    then Started caRot else mostRecentUpdate);
              m2 = (if After (LastRotated caRot) m1 then LastRotated caRot else m1)
          in getMostRecentRotationForCAs_loop s caTypes m2)"

definition getMostRecentRotationForCAs :: "('c, 'si, 'ev, 'f) Server \<Rightarrow> string list \<Rightarrow> error + time" where
  "getMostRecentRotationForCAs s caTypes = getMostRecentRotationForCAs_loop s caTypes 0"

definition findUnrotatedEC2Nodes :: "('c, 'si, 'ev, 'f) Server \<Rightarrow> error + Node list" where
  "findUnrotatedEC2Nodes s =
     (case getMostRecentRotationForCAs s [OpenSSHCA, HostCA] of
        Inl err \<Rightarrow> Inl err
      | Inr mostRecentCertRotation \<Rightarrow>
          let found = GetNodes (nodeWatcher s)
                (\<lambda>n. if SubKind n \<noteq> SubKindOpenSSHNode then False
                      else if GetLabel n AWSAccountIDLabel = None then False
                      else if GetLabel n AWSInstanceIDLabel = None then False
                      else After mostRecentCertRotation (LastRotated (NodeRotation n)))
          in if length found = 0 then Inl (NotFound ''no unrotated nodes found'')
             else Inr found)"

text \<open>One tick of the ticker of watchCARotation.\<close>

definition watchCARotation_tick :: "('c, 'si, 'ev, 'f) Server \<Rightarrow> ('c, 'si, 'ev, 'f) Server" where
  "watchCARotation_tick s =
     (case findUnrotatedEC2Nodes s of
        Inl err \<Rightarrow>
          if IsNotFound err then logf DebugLevel ''No OpenSSH nodes require CA rotation'' s
          else logf ErrorLevel ''Error finding OpenSSH nodes requiring CA rotation: %s'' s
      | Inr nodes \<Rightarrow>
          (logf DebugLevel ''Found %d nodes requiring rotation'' s)
            \<lparr>caRotationCh := caRotationCh s @ [nodes]\<rparr>)"

text \<open>
  The timestamps of a certificate authority that count, in the words of the
  specification: the start of its rotation when a rotation is in progress, and the time
  it was last rotated.
\<close>

definition ca_timestamps :: "Rotation \<Rightarrow> time list" where
  "ca_timestamps r =
     (if State r = RotationStateInProgress then [Started r] else []) @ [LastRotated r]"

section \<open>Dynamic matchers (discovery.go, startDynamicWatcherUpdater)\<close>

text \<open>
  Package lib/srv/discovery/fetchers/db is not among the sources: its type predicates
  and its constructors of fetchers are parameters.
\<close>

record ('c, 'f) DbPkg =
  IsAWSMatcherType :: "string \<Rightarrow> bool"
  IsAzureMatcherType :: "string \<Rightarrow> bool"
  MakeAWSFetchers :: "'c Clients \<Rightarrow> AWSMatcher list \<Rightarrow> error + 'f list"
  MakeAzureFetchers :: "'c Clients \<Rightarrow> AzureMatcher list \<Rightarrow> error + 'f list"

definition databaseFetchersFromMatchers ::
  "('c, 'f) DbPkg \<Rightarrow> ('c, 'si, 'ev, 'f) Server \<Rightarrow> Matchers \<Rightarrow> error + 'f list"
where
  "databaseFetchersFromMatchers db s matchers =
     (let fetchers = [];
          awsDatabaseMatchers = fst (splitMatchers (AWS matchers) (IsAWSMatcherType db))
      in (case (if length awsDatabaseMatchers > 0
                then (case MakeAWSFetchers db (CloudClients s) awsDatabaseMatchers of
                        Inl err \<Rightarrow> Inl err
                      | Inr dbFetchers \<Rightarrow> Inr (fetchers @ dbFetchers))
                else Inr fetchers) of
            Inl err \<Rightarrow> Inl err
          | Inr fetchers1 \<Rightarrow>
              let azureDatabaseMatchers = fst (splitMatchers (Azure matchers) (IsAzureMatcherType db))
              in if length azureDatabaseMatchers > 0
                 then (case MakeAzureFetchers db (CloudClients s) azureDatabaseMatchers of
                         Inl err \<Rightarrow> Inl err
                       | Inr dbFetchers \<Rightarrow> Inr (fetchers1 @ dbFetchers))
                 else Inr fetchers1))"

definition upsertDynamicMatchers ::
  "('c, 'f) DbPkg \<Rightarrow> ('c, 'si, 'ev, 'f) Server \<Rightarrow> DiscoveryConfig \<Rightarrow>
   error option \<times> ('c, 'si, 'ev, 'f) Server"
where
  "upsertDynamicMatchers db s dc =
     (let matchers = \<lparr>AWS = dc_AWS dc, Azure = dc_Azure dc, GCP = dc_GCP dc, Kubernetes = dc_Kube dc\<rparr>
      in (case databaseFetchersFromMatchers db s matchers of
            Inl err \<Rightarrow> (Some err, s)
          | Inr dbFetchers \<Rightarrow>
              (None, s\<lparr>dynamicDatabaseFetchers := (dynamicDatabaseFetchers s)(dc_Name dc \<mapsto> dbFetchers)\<rparr>)))"

text \<open>
  The event loop of startDynamicWatcherUpdater, on what its \<^verbatim>\<open>select\<close> receives
  from the watcher. It is the second loop of the function; the first, the scan of the
  discovery configurations that exist already, makes the same calls of
  upsertDynamicMatchers and leaves the server on which the event loop starts. The
  goroutine has \<open>Returned\<close>, or it is \<open>Waiting\<close> in the \<^verbatim>\<open>select\<close> for the
  next event.
\<close>

datatype updater = Waiting | Returned

fun dynamicWatcherUpdater_loop ::
  "('c, 'f) DbPkg \<Rightarrow> ('c, 'si, 'ev, 'f) Server \<Rightarrow> Watcher \<Rightarrow> updater \<times> ('c, 'si, 'ev, 'f) Server"
where
  "dynamicWatcherUpdater_loop db s [] = (Waiting, s)"
| "dynamicWatcherUpdater_loop db s (DoneSignal werr # signals) =
     (Returned, logf WarnLevel ''dynamic matcher watcher error: %v'' s)"
| "dynamicWatcherUpdater_loop db s (EventSignal event # signals) =
     (case Type event of
        OpPut \<Rightarrow>
          (case Resource event of
             OtherResource name \<Rightarrow>
               (Returned, logf WarnLevel ''dynamic matcher watcher: unexpected resource type %T'' s)
           | DiscoveryConfigResource dc \<Rightarrow>
               if dc_DiscoveryGroup dc \<noteq> DiscoveryGroup s
               then dynamicWatcherUpdater_loop db
                      (s\<lparr>dynamicDatabaseFetchers :=
                           (dynamicDatabaseFetchers s)(GetName (Resource event) := None)\<rparr>) signals
               else (case upsertDynamicMatchers db s dc of
                       (Some err, s1) \<Rightarrow>
                         dynamicWatcherUpdater_loop db
                           (logf WarnLevel
                              ''failed to update dynamic matchers for discovery config %q'' s1) signals
                     | (None, s1) \<Rightarrow> dynamicWatcherUpdater_loop db s1 signals))
      | OpDelete \<Rightarrow>
          dynamicWatcherUpdater_loop db
            (s\<lparr>dynamicDatabaseFetchers :=
                 (dynamicDatabaseFetchers s)(GetName (Resource event) := None)\<rparr>) signals
      | _ \<Rightarrow>
          dynamicWatcherUpdater_loop db (logf WarnLevel ''Skipping unknown event type %s'' s) signals)"

section \<open>Construction (discovery.go, CheckAndSetDefaults and New)\<close>

text \<open>
  The configuration. A field that Go tests for nil is an option. The emitter, the
  Kubernetes client, the protocol checker and the clock are only tested for nil and
  handed on.
\<close>

record ('c, 'ev) Config =
  cfg_CloudClients :: "'c Clients option"
  KubernetesClient :: "unit option"
  cfg_Matchers :: Matchers
  Emitter :: "unit option"
  cfg_AccessPoint :: "'ev DiscoveryAccessPoint option"
  cfg_Log :: "logline list option"
  protocolChecker :: "unit option"
  cfg_DiscoveryGroup :: string
  cfg_ClusterName :: string
  PollInterval :: nat
  clock :: "unit option"

text \<open>
  What construction takes from outside the sources: the constructors that
  CheckAndSetDefaults calls, the installers and the watchers that the \<^verbatim>\<open>init\<close>
  methods of New build (they can fail, and what they build is not part of the server
  modelled here), and package db.
\<close>

record ('c, 'f) Outside =
  NewClients :: "error + 'c Clients"
  InClusterConfig :: "error + unit"
  NewForConfig :: "error + unit"
  SimplifyAzureMatchers :: "AzureMatcher list \<Rightarrow> AzureMatcher list"
  NewSSMInstaller :: "'c SSMRunRequest list \<Rightarrow> 'c SSMRunRequest \<Rightarrow> error option"
  NewAzureInstaller :: "'c AzureRunRequest list \<Rightarrow> 'c AzureRunRequest \<Rightarrow> error option"
  NewGCPInstaller :: "'c GCPRunRequest list \<Rightarrow> 'c GCPRunRequest \<Rightarrow> error option"
  initWatchers :: "Matchers \<Rightarrow> error option"
  db_pkg :: "('c, 'f) DbPkg"

definition Minute :: nat where
  "Minute = 60 * 1000000000"

definition CheckAndSetDefaults :: "('c, 'f) Outside \<Rightarrow> ('c, 'ev) Config \<Rightarrow> error + ('c, 'ev) Config" where
  "CheckAndSetDefaults out c =
     (if IsEmpty (cfg_Matchers c) \<and> cfg_DiscoveryGroup c = []
      then Inl (BadParameter ''no matchers or discovery group configured for discovery'')
      else if Emitter c = None
      then Inl (BadParameter ''no Emitter configured for discovery'')
      else if cfg_AccessPoint c = None
      then Inl (BadParameter ''no AccessPoint configured for discovery'')
      else if length (Kubernetes (cfg_Matchers c)) > 0 \<and> cfg_DiscoveryGroup c = []
      then Inl (BadParameter ''the DiscoveryGroup name should be set for discovery server if\<newline>kubernetes matchers are present.'')
      else
        (case (if cfg_CloudClients c = None
               then (case NewClients out of
                       Inl err \<Rightarrow> Inl err
                     | Inr cloudClients \<Rightarrow> Inr (c\<lparr>cfg_CloudClients := Some cloudClients\<rparr>))
               else Inr c) of
           Inl err \<Rightarrow> Inl err
         | Inr c1 \<Rightarrow>
             (case (if KubernetesClient c1 = None \<and> length (Kubernetes (cfg_Matchers c1)) > 0
                    then (case InClusterConfig out of
                            Inl err \<Rightarrow> Inl err
                          | Inr cfg \<Rightarrow>
                              (case NewForConfig out of
                                 Inl err \<Rightarrow> Inl err
                               | Inr kubeClient \<Rightarrow> Inr (c1\<lparr>KubernetesClient := Some kubeClient\<rparr>)))
                    else Inr c1) of
                Inl err \<Rightarrow> Inl err
              | Inr c2 \<Rightarrow>
                  let c3 = (if cfg_Log c2 = None then c2\<lparr>cfg_Log := Some []\<rparr> else c2);
                      c4 = (if protocolChecker c3 = None then c3\<lparr>protocolChecker := Some ()\<rparr> else c3);
                      c5 = (if PollInterval c4 = 0 then c4\<lparr>PollInterval := 5 * Minute\<rparr> else c4);
                      c6 = (if clock c5 = None then c5\<lparr>clock := Some ()\<rparr> else c5);
                      ms = cfg_Matchers c6
                  in Inr (c6\<lparr>cfg_Matchers := ms\<lparr>Azure := SimplifyAzureMatchers out (Azure ms)\<rparr>\<rparr>))))"

text \<open>
  startDynamicMatchersWatcher. The result is \<open>None\<close> when the \<^verbatim>\<open>select\<close> that waits
  for the first signal of the watcher never receives one: then the call does not
  return. A watcher that the access point returns is a subscription opened, whatever
  follows. The goroutine started with \<^verbatim>\<open>go\<close> consumes the signals that follow the
  first: the watcher that the server holds afterwards is these signals, and a server
  that holds no watcher has no such goroutine.
\<close>

definition startDynamicMatchersWatcher ::
  "('c, 'si, 'ev, 'f) Server \<Rightarrow> (error option \<times> ('c, 'si, 'ev, 'f) Server) option"
where
  "startDynamicMatchersWatcher s =
     (if DiscoveryGroup s = [] then Some (None, s)
      else
        (case NewWatcher (AccessPoint s) [KindDiscoveryConfig] of
           Inl err \<Rightarrow> Some (Some err, s)
         | Inr watcher \<Rightarrow>
             let s1 = s\<lparr>watchersOpened := watchersOpened s @ [[KindDiscoveryConfig]]\<rparr>
             in (case watcher of
                   [] \<Rightarrow> None
                 | EventSignal event # signals \<Rightarrow>
                     if Type event \<noteq> OpInit
                     then Some (Some (BadParameter ''failed to watch for DiscoveryConfig: received an unexpected event while waiting for the initial OpInit''), s1)
                     else Some (None, s1\<lparr>dynamicMatcherWatcher := Some signals\<rparr>)
                 | DoneSignal werr # signals \<Rightarrow> Some (Wrap werr, s1))))"

text \<open>
  The struct literal of New: the server before any of its parts is started. After
  CheckAndSetDefaults the cloud clients and the access point of the configuration are
  set, and the server takes them from there. The usage-event cache and the table of
  dynamic fetchers start empty, and nothing has been done to a collaborator yet.
\<close>

definition newServer ::
  "('c, 'f) Outside \<Rightarrow> ('c, 'ev) Config \<Rightarrow> 'c Clients \<Rightarrow> 'ev DiscoveryAccessPoint \<Rightarrow>
   ('c, 'si, 'ev, 'f) Server"
where
  "newServer out cfg clients ap =
     \<lparr>CloudClients = clients,
      AccessPoint = ap,
      DiscoveryGroup = cfg_DiscoveryGroup cfg,
      ClusterName = cfg_ClusterName cfg,
      nodeWatcher = [],
      databaseFetchers = [],
      dynamicMatcherWatcher = None,
      dynamicDatabaseFetchers = Map.empty,
      ec2Installer = NewSSMInstaller out,
      azureInstaller = NewAzureInstaller out,
      gcpInstaller = NewGCPInstaller out,
      usageEventCache = {},
      ec2Runs = [],
      azureRuns = [],
      gcpRuns = [],
      submitted = [],
      reconcilerQueue = [],
      caRotationCh = [],
      watchersOpened = [],
      Log = (case cfg_Log cfg of None \<Rightarrow> [] | Some l \<Rightarrow> l)\<rparr>"

text \<open>
  New. Its result is \<open>None\<close> when the call does not return. The last case, of a
  checked configuration without cloud clients or access point, does not occur, since
  CheckAndSetDefaults returns an error or sets both.
\<close>

definition New ::
  "('c, 'f) Outside \<Rightarrow> ('c, 'ev) Config \<Rightarrow> (error + ('c, 'si, 'ev, 'f) Server) option"
where
  "New out cfg =
     (case CheckAndSetDefaults out cfg of
        Inl err \<Rightarrow> Some (Inl err)
      | Inr cfg1 \<Rightarrow>
          (case (cfg_CloudClients cfg1, cfg_AccessPoint cfg1) of
             (Some clients, Some ap) \<Rightarrow>
               (case startDynamicMatchersWatcher (newServer out cfg1 clients ap) of
                  None \<Rightarrow> None
                | Some (Some err, s1) \<Rightarrow> Some (Inl err)
                | Some (None, s1) \<Rightarrow>
                    (case databaseFetchersFromMatchers (db_pkg out) s1 (cfg_Matchers cfg1) of
                       Inl err \<Rightarrow> Some (Inl err)
                     | Inr dbFetchers \<Rightarrow>
                         let s2 = s1\<lparr>databaseFetchers := dbFetchers\<rparr>
                         in (case initWatchers out (cfg_Matchers cfg1) of
                               Some err \<Rightarrow> Some (Inl err)
                             | None \<Rightarrow> Some (Inr s2))))
           | _ \<Rightarrow> Some (Inl (Failure ''nil CloudClients or AccessPoint''))))"

section \<open>The properties in the words of the specification\<close>

text \<open>
  An instance is known when a node of the inventory carries its identity: the account
  of the batch and the instance ID.
\<close>

definition known_ec2 :: "Node list \<Rightarrow> string \<Rightarrow> EC2Instance \<Rightarrow> bool" where
  "known_ec2 inventory accountID inst =
     list_ex (\<lambda>node. Labels node AWSAccountIDLabel = Some accountID
                    \<and> Labels node AWSInstanceIDLabel = Some (InstanceID inst)) inventory"

text \<open>
  The instances of a batch that remain for the installer: all of them for a rotation
  batch, and otherwise those that are not known. The request built from a batch for the
  instances that remain. A request is fresh when none of its instances is known.
\<close>

definition ec2_kept :: "Node list \<Rightarrow> EC2Instances \<Rightarrow> EC2Instance list" where
  "ec2_kept inventory b =
     (if Rotation b then Instances b
      else filter (\<lambda>inst. \<not> known_ec2 inventory (AccountID b) inst) (Instances b))"

definition ec2_request :: "'c \<Rightarrow> EC2Instances \<Rightarrow> EC2Instance list \<Rightarrow> 'c SSMRunRequest" where
  "ec2_request c b kept =
     \<lparr>ssm_DocumentName = DocumentName b, ssm_SSM = c, ssm_Instances = kept,
      ssm_Params = Parameters b, ssm_Region = Region b, ssm_AccountID = AccountID b\<rparr>"

definition ec2_fresh :: "Node list \<Rightarrow> 'c SSMRunRequest \<Rightarrow> bool" where
  "ec2_fresh inventory req =
     list_all (\<lambda>inst. \<not> known_ec2 inventory (ssm_AccountID req) inst) (ssm_Instances req)"

text \<open>
  The sink was called at most once for every name, and every name it was called for is
  in the cache. The server that New builds satisfies this: its cache is empty and
  nothing was submitted.
\<close>

definition usage_inv :: "('c, 'si, 'ev, 'f) Server \<Rightarrow> bool" where
  "usage_inv s = (distinct (map fst (submitted s)) \<and> fst ` set (submitted s) \<subseteq> usageEventCache s)"

text \<open>
  The nodes that a rotation batch must hold for a most recent rotation time: the OpenSSH
  nodes of the inventory that carry the two AWS labels and whose recorded last rotation
  is strictly before that time.
\<close>

definition unrotated_nodes :: "time \<Rightarrow> Node list \<Rightarrow> Node list" where
  "unrotated_nodes mostRecent inventory =
     filter (\<lambda>n. SubKind n = SubKindOpenSSHNode
                \<and> Labels n AWSAccountIDLabel \<noteq> None \<and> Labels n AWSInstanceIDLabel \<noteq> None
                \<and> LastRotated (NodeRotation n) < mostRecent) inventory"

text \<open>
  The matchers of a list restricted to their database types: every matcher that declares
  a type the predicate accepts, with only those types. The matcher set of a discovery
  configuration.
\<close>

definition database_matchers :: "(string \<Rightarrow> bool) \<Rightarrow> 'z matcher_scheme list \<Rightarrow> 'z matcher_scheme list" where
  "database_matchers isDatabaseType ms =
     map (\<lambda>m. CopyWithTypes m (filter isDatabaseType (GetTypes m)))
       (filter (\<lambda>m. filter isDatabaseType (GetTypes m) \<noteq> []) ms)"

definition config_matchers :: "DiscoveryConfig \<Rightarrow> Matchers" where
  "config_matchers dc =
     \<lparr>AWS = dc_AWS dc, Azure = dc_Azure dc, GCP = dc_GCP dc, Kubernetes = dc_Kube dc\<rparr>"

section \<open>Scenarios\<close>

text \<open>
  The end-to-end scenarios of the specification: collaborators that succeed, a server
  with a given inventory and nothing done yet, a node enrolled from an EC2 instance, and
  a batch of EC2 instances of region us-east-1 that is not a rotation batch.
\<close>

definition scenarioClients :: "unit Clients" where
  "scenarioClients =
     \<lparr>GetAWSSSMClient = (\<lambda>region. Inr ()),
      GetAzureRunCommandClient = (\<lambda>subscription. Inr ()),
      GetGCPInstancesClient = Inr ()\<rparr>"

definition scenarioAccessPoint :: "string DiscoveryAccessPoint" where
  "scenarioAccessPoint =
     \<lparr>SubmitUsageEvent = (\<lambda>history event. None),
      GetCertAuthority = (\<lambda>caType domain.
        if caType = OpenSSHCA
        then Inr \<lparr>State = RotationStateInProgress, Started = 180, LastRotated = 100\<rparr>
        else Inr \<lparr>State = ''standby'', Started = 190, LastRotated = 120\<rparr>),
      NewWatcher = (\<lambda>kinds. Inr [EventSignal \<lparr>Type = OpInit, Resource = OtherResource []\<rparr>])\<rparr>"

definition scenarioPkg :: "(unit, string) ServerPkg" where
  "scenarioPkg =
     \<lparr>ServerInfos = (\<lambda>b. Inr (map (\<lambda>inst. ()) (Instances b))),
      EC2MakeEvents = (\<lambda>b. map (\<lambda>inst. (''aws/'' @ InstanceID inst, ''node'')) (Instances b)),
      AzureMakeEvents = (\<lambda>b. map (\<lambda>vm. (''azure/'' @ StringValue (vm_Name vm), ''node'')) (az_Instances b)),
      GCPMakeEvents = (\<lambda>b. map (\<lambda>inst. (''gcp/'' @ gi_Name inst, ''node'')) (gcp_Instances b))\<rparr>"

definition scenarioServer :: "Node list \<Rightarrow> (unit, unit, string, string) Server" where
  "scenarioServer inventory =
     \<lparr>CloudClients = scenarioClients,
      AccessPoint = scenarioAccessPoint,
      DiscoveryGroup = ''g1'',
      ClusterName = ''cluster'',
      nodeWatcher = inventory,
      databaseFetchers = [],
      dynamicMatcherWatcher = None,
      dynamicDatabaseFetchers = Map.empty,
      ec2Installer = (\<lambda>runs req. None),
      azureInstaller = (\<lambda>runs req. None),
      gcpInstaller = (\<lambda>runs req. None),
      usageEventCache = {},
      ec2Runs = [],
      azureRuns = [],
      gcpRuns = [],
      submitted = [],
      reconcilerQueue = [],
      caRotationCh = [],
      watchersOpened = [],
      Log = []\<rparr>"

definition enrolledEC2Node :: "string \<Rightarrow> string \<Rightarrow> time \<Rightarrow> Node" where
  "enrolledEC2Node accountID instanceID rotated =
     \<lparr>SubKind = SubKindOpenSSHNode,
      Labels = [AWSAccountIDLabel \<mapsto> accountID, AWSInstanceIDLabel \<mapsto> instanceID],
      NodeRotation = \<lparr>State = ''standby'', Started = 0, LastRotated = rotated\<rparr>\<rparr>"

definition scenarioBatch :: "string list \<Rightarrow> EC2Instances" where
  "scenarioBatch ids =
     \<lparr>Region = ''us-east-1'', DocumentName = ''TeleportDiscoveryInstaller'', Parameters = [],
      AccountID = ''123456789012'',
      Instances = map (\<lambda>i. \<lparr>InstanceID = i\<rparr>) ids,
      Rotation = False\<rparr>"

text \<open>
  Nodes enrolled from an Azure virtual machine and from a GCP instance, batches of the
  two providers, and an inventory that knows one instance of each provider.
\<close>

definition enrolledAzureNode :: "string \<Rightarrow> string \<Rightarrow> Node" where
  "enrolledAzureNode subscriptionID vmID =
     \<lparr>SubKind = ''teleport'',
      Labels = [SubscriptionIDLabel \<mapsto> subscriptionID, VMIDLabel \<mapsto> vmID],
      NodeRotation = \<lparr>State = ''standby'', Started = 0, LastRotated = 0\<rparr>\<rparr>"

definition enrolledGCPNode :: "string \<Rightarrow> string \<Rightarrow> string \<Rightarrow> Node" where
  "enrolledGCPNode projectID zone name =
     \<lparr>SubKind = ''teleport'',
      Labels = [ProjectIDLabel \<mapsto> projectID, ZoneLabel \<mapsto> zone, NameLabel \<mapsto> name],
      NodeRotation = \<lparr>State = ''standby'', Started = 0, LastRotated = 0\<rparr>\<rparr>"

definition scenarioAzureBatch :: "string list \<Rightarrow> AzureInstances" where
  "scenarioAzureBatch vmIDs =
     \<lparr>az_Region = ''eastus'', SubscriptionID = ''sub-1'', ResourceGroup = ''rg-1'',
      az_Parameters = [], az_ScriptName = ''default-installer'',
      az_PublicProxyAddr = ''proxy.example.com:443'', ClientID = [],
      az_Instances = map (\<lambda>i. \<lparr>vm_Name = Some i, Properties = Some \<lparr>VMID = Some i\<rparr>\<rparr>) vmIDs\<rparr>"

definition scenarioGCPBatch :: "string list \<Rightarrow> GCPInstances" where
  "scenarioGCPBatch names =
     \<lparr>gcp_Zone = ''us-central1-a'', gcp_ProjectID = ''project-1'',
      gcp_ScriptName = ''default-installer'', gcp_PublicProxyAddr = ''proxy.example.com:443'',
      gcp_Parameters = [],
      gcp_Instances = map (\<lambda>n. \<lparr>gi_ProjectID = ''project-1'', gi_Zone = ''us-central1-a'',
                                  gi_Name = n\<rparr>) names\<rparr>"

definition scenarioInventory :: "Node list" where
  "scenarioInventory =
     [enrolledEC2Node ''123456789012'' ''i-1'' 0,
      enrolledAzureNode ''sub-1'' ''vm-1'',
      enrolledGCPNode ''project-1'' ''us-central1-a'' ''vm-1'']"

text \<open>
  A package db that recognises two AWS and two Azure database types and makes one
  fetcher, named after the type, for every type of the matchers it is given; and the
  discovery configuration of scenario C, with one Azure matcher, for a given group.
\<close>

definition scenarioDb :: "(unit, string) DbPkg" where
  "scenarioDb =
     \<lparr>IsAWSMatcherType = (\<lambda>t. t = ''rds'' \<or> t = ''redshift''),
      IsAzureMatcherType = (\<lambda>t. t = ''mysql'' \<or> t = ''postgres''),
      MakeAWSFetchers = (\<lambda>clients ms. Inr (concat (map (\<lambda>m. map (\<lambda>t. ''aws/'' @ t) (Types m)) ms))),
      MakeAzureFetchers = (\<lambda>clients ms. Inr (concat (map (\<lambda>m. map (\<lambda>t. ''azure/'' @ t) (Types m)) ms)))\<rparr>"

definition scenarioDiscoveryConfig :: "string \<Rightarrow> DiscoveryConfig" where
  "scenarioDiscoveryConfig discoveryGroup =
     \<lparr>dc_Name = ''dc1'', dc_DiscoveryGroup = discoveryGroup, dc_AWS = [],
      dc_Azure = [\<lparr>Types = [''mysql'', ''vm''], Subscriptions = [''sub-1''], ResourceGroups = [''*''],
                   azm_Regions = [''eastus''], ResourceTags = [(''*'', [''*''])]\<rparr>],
      dc_GCP = [], dc_Kube = []\<rparr>"

text \<open>
  Construction in scenario A: the collaborators outside the sources all succeed, the
  matcher set has one AWS matcher for EC2 in us-east-1 with the tag env=prod, and the
  configuration has a given matcher set and discovery group and an access point whose
  subscription behaves as given.
\<close>

definition scenarioOutside :: "(unit, string) Outside" where
  "scenarioOutside =
     \<lparr>NewClients = Inr scenarioClients,
      InClusterConfig = Inr (),
      NewForConfig = Inr (),
      SimplifyAzureMatchers = (\<lambda>ms. ms),
      NewSSMInstaller = (\<lambda>runs req. None),
      NewAzureInstaller = (\<lambda>runs req. None),
      NewGCPInstaller = (\<lambda>runs req. None),
      initWatchers = (\<lambda>ms. None),
      db_pkg = scenarioDb\<rparr>"

definition scenarioMatchers :: Matchers where
  "scenarioMatchers =
     \<lparr>AWS = [\<lparr>Types = [''ec2''], aws_Regions = [''us-east-1''],
               aws_Tags = [(''env'', [''prod''])], aws_AssumeRole = None\<rparr>],
      Azure = [], GCP = [], Kubernetes = []\<rparr>"

definition scenarioConfig :: "Matchers \<Rightarrow> string \<Rightarrow> error + Watcher \<Rightarrow> (unit, string) Config" where
  "scenarioConfig ms discoveryGroup watcher =
     \<lparr>cfg_CloudClients = None,
      KubernetesClient = None,
      cfg_Matchers = ms,
      Emitter = Some (),
      cfg_AccessPoint = Some (scenarioAccessPoint\<lparr>NewWatcher := (\<lambda>kinds. watcher)\<rparr>),
      cfg_Log = None,
      protocolChecker = None,
      cfg_DiscoveryGroup = discoveryGroup,
      cfg_ClusterName = ''cluster'',
      PollInterval = 0,
      clock = None\<rparr>"


text \<open>
  The server of the scenarios with installers that fail: every \<^verbatim>\<open>Run\<close> of the
  three installers returns the given error.
\<close>

definition scenarioFailingServer :: "error \<Rightarrow> Node list \<Rightarrow> (unit, unit, string, string) Server" where
  "scenarioFailingServer err inventory =
     (scenarioServer inventory)
       \<lparr>ec2Installer := (\<lambda>runs req. Some err),
        azureInstaller := (\<lambda>runs req. Some err),
        gcpInstaller := (\<lambda>runs req. Some err)\<rparr>"

section \<open>Properties\<close>

lemmas scenario_defs = scenarioClients_def scenarioAccessPoint_def scenarioPkg_def
  scenarioServer_def enrolledEC2Node_def scenarioBatch_def

lemmas label_defs = AWSAccountIDLabel_def AWSInstanceIDLabel_def SubscriptionIDLabel_def
  VMIDLabel_def ProjectIDLabel_def ZoneLabel_def NameLabel_def

subsection \<open>Properties of the partition\<close>

lemma splitSlice_loop_filter:
  "splitSlice_loop ss check (a, b) = (a @ filter check ss, b @ filter (\<lambda>e. \<not> check e) ss)"
  by (induction ss arbitrary: a b) simp_all

lemma splitSlice_filter:
  "splitSlice ss check = (filter check ss, filter (\<lambda>e. \<not> check e) ss)"
  by (simp add: splitSlice_def splitSlice_loop_filter)

lemma splitMatchers_loop_filter:
  "splitMatchers_loop ms P (a, b) =
     (a @ map (\<lambda>m. CopyWithTypes m (filter P (GetTypes m)))
            (filter (\<lambda>m. filter P (GetTypes m) \<noteq> []) ms),
      b @ map (\<lambda>m. CopyWithTypes m (filter (\<lambda>t. \<not> P t) (GetTypes m)))
            (filter (\<lambda>m. filter (\<lambda>t. \<not> P t) (GetTypes m) \<noteq> []) ms))"
  by (induction ms arbitrary: a b) (simp_all add: splitSlice_filter)

text \<open>
  Claim C2. For every list of matchers and every type predicate, the first result of
  splitMatchers holds, in the order of the input, one entry for each matcher that has a
  type satisfying the predicate, and that entry is the matcher with its types replaced
  by its declared types that satisfy the predicate, in their declared order; the second
  result is the same for the types that do not satisfy it. A matcher without a type on
  one side has no entry on that side. The copy changes the types and nothing else, and
  for every matcher the two lists of types are disjoint and together are the declared
  types.
\<close>

theorem splitMatchers_partition:
  "splitMatchers ms P =
     (map (\<lambda>m. CopyWithTypes m (filter P (GetTypes m)))
        (filter (\<lambda>m. filter P (GetTypes m) \<noteq> []) ms),
      map (\<lambda>m. CopyWithTypes m (filter (\<lambda>t. \<not> P t) (GetTypes m)))
        (filter (\<lambda>m. filter (\<lambda>t. \<not> P t) (GetTypes m) \<noteq> []) ms))
   \<and> GetTypes (CopyWithTypes m ts) = ts
   \<and> matcher.more (CopyWithTypes m ts) = matcher.more m
   \<and> set (filter P (GetTypes m)) \<inter> set (filter (\<lambda>t. \<not> P t) (GetTypes m)) = {}
   \<and> set (filter P (GetTypes m)) \<union> set (filter (\<lambda>t. \<not> P t) (GetTypes m)) = set (GetTypes m)"
proof -
  have "splitMatchers ms P =
     (map (\<lambda>m. CopyWithTypes m (filter P (GetTypes m)))
        (filter (\<lambda>m. filter P (GetTypes m) \<noteq> []) ms),
      map (\<lambda>m. CopyWithTypes m (filter (\<lambda>t. \<not> P t) (GetTypes m)))
        (filter (\<lambda>m. filter (\<lambda>t. \<not> P t) (GetTypes m) \<noteq> []) ms))"
    by (simp add: splitMatchers_def splitMatchers_loop_filter)
  moreover have "GetTypes (CopyWithTypes m ts) = ts"
    by (simp add: GetTypes_def CopyWithTypes_def)
  moreover have "matcher.more (CopyWithTypes m ts) = matcher.more m"
    by (simp add: CopyWithTypes_def)
  moreover have "set (filter P (GetTypes m)) \<inter> set (filter (\<lambda>t. \<not> P t) (GetTypes m)) = {}"
    by auto
  moreover have "set (filter P (GetTypes m)) \<union> set (filter (\<lambda>t. \<not> P t) (GetTypes m)) = set (GetTypes m)"
    by auto
  ultimately show ?thesis by blast
qed


subsection \<open>Usage events\<close>

lemma emitUsageEvents_cache_mono:
  "usageEventCache s \<subseteq> usageEventCache (snd (emitUsageEvents s evs))"
proof (induction evs arbitrary: s)
  case Nil
  show ?case by simp
next
  case (Cons a evs)
  obtain name event where a: "a = (name, event)" by (cases a)
  show ?case
  proof (cases "name \<in> usageEventCache s")
    case True
    then show ?thesis using Cons.IH [of s] by (simp add: a)
  next
    case False
    let ?s2 = "s\<lparr>usageEventCache := insert name (usageEventCache s),
                  submitted := submitted s @ [(name, event)]\<rparr>"
    have "usageEventCache ?s2 \<subseteq> usageEventCache (snd (emitUsageEvents ?s2 evs))"
      by (rule Cons.IH)
    then show ?thesis using False
      by (auto simp add: a Let_def split: option.splits)
  qed
qed

lemma emitUsageEvents_skip:
  "name \<in> usageEventCache s \<Longrightarrow> sink_calls (snd (emitUsageEvents s evs)) name = sink_calls s name"
proof (induction evs arbitrary: s)
  case Nil
  show ?case by simp
next
  case (Cons a evs)
  obtain n event where a: "a = (n, event)" by (cases a)
  show ?case
  proof (cases "n \<in> usageEventCache s")
    case True
    then show ?thesis using Cons.IH [of s] Cons.prems by (simp add: a)
  next
    case False
    let ?s2 = "s\<lparr>usageEventCache := insert n (usageEventCache s),
                  submitted := submitted s @ [(n, event)]\<rparr>"
    from False Cons.prems have ne: "n \<noteq> name" by auto
    have "name \<in> usageEventCache ?s2" using Cons.prems by simp
    then have "sink_calls (snd (emitUsageEvents ?s2 evs)) name = sink_calls ?s2 name"
      by (rule Cons.IH)
    moreover have "sink_calls ?s2 name = sink_calls s name"
      using ne by (simp add: sink_calls_def)
    ultimately show ?thesis using False
      by (auto simp add: a Let_def sink_calls_def split: option.splits)
  qed
qed

lemma emitUsageEvents_inv:
  "usage_inv s \<Longrightarrow> usage_inv (snd (emitUsageEvents s evs))"
proof (induction evs arbitrary: s)
  case Nil
  then show ?case by simp
next
  case (Cons a evs)
  obtain n event where a: "a = (n, event)" by (cases a)
  show ?case
  proof (cases "n \<in> usageEventCache s")
    case True
    then show ?thesis using Cons.IH [of s] Cons.prems by (simp add: a)
  next
    case False
    let ?s2 = "s\<lparr>usageEventCache := insert n (usageEventCache s),
                  submitted := submitted s @ [(n, event)]\<rparr>"
    have "usage_inv ?s2" using Cons.prems False
      by (auto simp add: usage_inv_def)
    then have "usage_inv (snd (emitUsageEvents ?s2 evs))" by (rule Cons.IH)
    moreover have "usage_inv ?s2" by fact
    ultimately show ?thesis using False
      by (auto simp add: a Let_def split: option.splits)
  qed
qed

lemma calls_cache_mono:
  "usageEventCache s \<subseteq> usageEventCache (emitUsageEvents_calls s bs)"
proof (induction bs arbitrary: s)
  case Nil show ?case by simp
next
  case (Cons b bs)
  have "usageEventCache s \<subseteq> usageEventCache (snd (emitUsageEvents s b))"
    by (rule emitUsageEvents_cache_mono)
  also have "\<dots> \<subseteq> usageEventCache (emitUsageEvents_calls (snd (emitUsageEvents s b)) bs)"
    by (rule Cons.IH)
  finally show ?case by simp
qed

lemma calls_skip:
  "name \<in> usageEventCache s \<Longrightarrow> sink_calls (emitUsageEvents_calls s bs) name = sink_calls s name"
proof (induction bs arbitrary: s)
  case Nil show ?case by simp
next
  case (Cons b bs)
  have "name \<in> usageEventCache (snd (emitUsageEvents s b))"
    using Cons.prems emitUsageEvents_cache_mono [of s b] by blast
  then have "sink_calls (emitUsageEvents_calls (snd (emitUsageEvents s b)) bs) name
      = sink_calls (snd (emitUsageEvents s b)) name"
    by (rule Cons.IH)
  then show ?case using Cons.prems by (simp add: emitUsageEvents_skip)
qed

lemma calls_inv:
  "usage_inv s \<Longrightarrow> usage_inv (emitUsageEvents_calls s bs)"
  by (induction bs arbitrary: s) (simp_all add: emitUsageEvents_inv)

lemma distinct_fst_filter_le_1:
  "distinct (map fst xs) \<Longrightarrow> length (filter (\<lambda>e. fst e = n) xs) \<le> Suc 0"
proof (induction xs)
  case Nil then show ?case by simp
next
  case (Cons x xs)
  show ?case
  proof (cases "fst x = n")
    case True
    then have "n \<notin> fst ` set xs" using Cons.prems by auto
    then have "filter (\<lambda>e. fst e = n) xs = []" by (auto simp add: filter_empty_conv)
    then show ?thesis using True by simp
  next
    case False
    then show ?thesis using Cons by simp
  qed
qed

lemma emitUsageEvents_append:
  "emitUsageEvents s (pre @ evs) =
     (case emitUsageEvents s pre of
        (None, s1) \<Rightarrow> emitUsageEvents s1 evs
      | (Some err, s1) \<Rightarrow> (Some err, s1))"
proof (induction pre arbitrary: s)
  case Nil
  show ?case by simp
next
  case (Cons a pre)
  obtain n event where a: "a = (n, event)" by (cases a)
  show ?case
    by (simp add: a Cons.IH Let_def split: option.splits)
qed

lemma emitUsageEvents_frame:
  "snd (emitUsageEvents s evs) =
     s\<lparr>usageEventCache := usageEventCache (snd (emitUsageEvents s evs)),
       submitted := submitted (snd (emitUsageEvents s evs))\<rparr>"
proof (induction evs arbitrary: s)
  case Nil
  show ?case by simp
next
  case (Cons a evs)
  obtain n event where a: "a = (n, event)" by (cases a)
  show ?case
  proof (cases "n \<in> usageEventCache s")
    case True
    then show ?thesis using Cons.IH [of s] by (simp add: a)
  next
    case False
    let ?s2 = "s\<lparr>usageEventCache := insert n (usageEventCache s),
                  submitted := submitted s @ [(n, event)]\<rparr>"
    show ?thesis
    proof (cases "SubmitUsageEvent (AccessPoint s) (map snd (submitted s)) event")
      case None
      then have "emitUsageEvents s (a # evs) = emitUsageEvents ?s2 evs"
        using False by (simp add: a Let_def)
      moreover have "snd (emitUsageEvents ?s2 evs) =
         ?s2\<lparr>usageEventCache := usageEventCache (snd (emitUsageEvents ?s2 evs)),
             submitted := submitted (snd (emitUsageEvents ?s2 evs))\<rparr>"
        by (rule Cons.IH)
      ultimately show ?thesis by simp
    next
      case (Some err)
      then show ?thesis using False by (simp add: a Let_def)
    qed
  qed
qed

lemma emitUsageEvents_keeps:
  assumes "emitUsageEvents s evs = (r, s')"
  shows "ec2Runs s' = ec2Runs s" and "azureRuns s' = azureRuns s" and "gcpRuns s' = gcpRuns s"
    and "nodeWatcher s' = nodeWatcher s" and "CloudClients s' = CloudClients s"
    and "reconcilerQueue s' = reconcilerQueue s" and "Log s' = Log s"
    and "ec2Installer s' = ec2Installer s"
proof -
  have "s' = s\<lparr>usageEventCache := usageEventCache s', submitted := submitted s'\<rparr>"
    using emitUsageEvents_frame [of s evs] assms by simp
  then obtain c u where eq: "s' = s\<lparr>usageEventCache := c, submitted := u\<rparr>" by blast
  show "ec2Runs s' = ec2Runs s" and "azureRuns s' = azureRuns s" and "gcpRuns s' = gcpRuns s"
    and "nodeWatcher s' = nodeWatcher s" and "CloudClients s' = CloudClients s"
    and "reconcilerQueue s' = reconcilerQueue s" and "Log s' = Log s"
    and "ec2Installer s' = ec2Installer s"
    by (simp_all add: eq)
qed

lemma newServer_usage_inv:
  "usage_inv (newServer out cfg clients ap)"
  by (simp add: usage_inv_def newServer_def)

text \<open>
  Claim C3. Take a server on which the sink was called at most once for every event name
  and only for names in the usage-event cache, as on the server that New builds. After
  any sequence of calls of emitUsageEvents, on any batches of events, the sink was
  called at most once for every name; the cache has not lost a name; and for a name that
  was in the cache before the calls, the calls of the sink are those made before: every
  later occurrence of the name is skipped.
\<close>

theorem usage_event_at_most_once:
  assumes "usage_inv s"
  shows "length (sink_calls (emitUsageEvents_calls s bs) name) \<le> 1
    \<and> usageEventCache s \<subseteq> usageEventCache (emitUsageEvents_calls s bs)
    \<and> (name \<in> usageEventCache s \<longrightarrow>
         sink_calls (emitUsageEvents_calls s bs) name = sink_calls s name)"
proof -
  have "usage_inv (emitUsageEvents_calls s bs)" using assms by (rule calls_inv)
  then have "length (sink_calls (emitUsageEvents_calls s bs) name) \<le> 1"
    by (simp add: usage_inv_def sink_calls_def distinct_fst_filter_le_1)
  then show ?thesis
    using calls_cache_mono [of s bs] calls_skip [of name s bs] by blast
qed

theorem usage_event_at_most_once_witness:
  "usage_inv ((scenarioServer [])\<lparr>usageEventCache := {''aws/i-1''},
       submitted := [(''aws/i-1'', ''node'')]\<rparr>)
   \<and> ''aws/i-1'' \<in> usageEventCache ((scenarioServer [])\<lparr>usageEventCache := {''aws/i-1''},
       submitted := [(''aws/i-1'', ''node'')]\<rparr>)
   \<and> sink_calls (emitUsageEvents_calls ((scenarioServer [])\<lparr>usageEventCache := {''aws/i-1''},
       submitted := [(''aws/i-1'', ''node'')]\<rparr>)
         [[(''aws/i-1'', ''node''), (''aws/i-2'', ''node'')], [(''aws/i-1'', ''node'')]]) ''aws/i-1''
       = [(''aws/i-1'', ''node'')]"
  using usage_event_at_most_once [of
      "(scenarioServer [])\<lparr>usageEventCache := {''aws/i-1''}, submitted := [(''aws/i-1'', ''node'')]\<rparr>"
      "[[(''aws/i-1'', ''node''), (''aws/i-2'', ''node'')], [(''aws/i-1'', ''node'')]]" "''aws/i-1''"]
  by (simp add: usage_inv_def sink_calls_def scenarioServer_def)

text \<open>
  Claim C9. In a call of emitUsageEvents, let the events before some event be processed
  without an error of the sink, let the name of that event be new to the cache, and let
  the sink return an error for it. Then the call returns that error at once, and the
  state it leaves is the state reached before the event with this one name added to the
  cache and this one call made to the sink: the name was recorded although the sink
  failed, and the remaining events of the batch were neither cached nor submitted.
  Whatever calls follow, the name stays in the cache and the sink is not called for it
  again. A remaining event whose name is not in the cache is submitted by a later call
  that has it.
\<close>

theorem sink_error_keeps_name:
  assumes pre: "emitUsageEvents s pre = (None, s1)"
      and new: "name \<notin> usageEventCache s1"
      and err: "SubmitUsageEvent (AccessPoint s1) (map snd (submitted s1)) event = Some err"
  shows "emitUsageEvents s (pre @ (name, event) # remaining) =
           (Some err, s1\<lparr>usageEventCache := insert name (usageEventCache s1),
                         submitted := submitted s1 @ [(name, event)]\<rparr>)
    \<and> name \<in> usageEventCache
         (emitUsageEvents_calls (snd (emitUsageEvents s (pre @ (name, event) # remaining))) later)
    \<and> sink_calls
         (emitUsageEvents_calls (snd (emitUsageEvents s (pre @ (name, event) # remaining))) later) name
       = sink_calls s1 name @ [(name, event)]
    \<and> (n2 \<notin> usageEventCache s1 \<and> n2 \<noteq> name \<longrightarrow>
         sink_calls (snd (emitUsageEvents
           (snd (emitUsageEvents s (pre @ (name, event) # remaining))) [(n2, e2)])) n2
         = sink_calls s1 n2 @ [(n2, e2)])"
proof -
  let ?s2 = "s1\<lparr>usageEventCache := insert name (usageEventCache s1),
                 submitted := submitted s1 @ [(name, event)]\<rparr>"
  have step: "emitUsageEvents s (pre @ (name, event) # remaining) = (Some err, ?s2)"
    using pre new err by (simp add: emitUsageEvents_append Let_def)
  have inc: "name \<in> usageEventCache ?s2" by simp
  have "name \<in> usageEventCache (emitUsageEvents_calls ?s2 later)"
    using inc calls_cache_mono [of ?s2 later] by blast
  moreover have "sink_calls (emitUsageEvents_calls ?s2 later) name = sink_calls ?s2 name"
    using inc by (rule calls_skip)
  moreover have "sink_calls ?s2 name = sink_calls s1 name @ [(name, event)]"
    by (simp add: sink_calls_def)
  moreover have "n2 \<notin> usageEventCache s1 \<and> n2 \<noteq> name \<longrightarrow>
      sink_calls (snd (emitUsageEvents ?s2 [(n2, e2)])) n2 = sink_calls s1 n2 @ [(n2, e2)]"
    by (simp add: sink_calls_def Let_def split: option.splits)
  ultimately show ?thesis using step by simp
qed

theorem sink_error_keeps_name_witness:
  "emitUsageEvents
      ((scenarioServer [])\<lparr>AccessPoint := scenarioAccessPoint\<lparr>SubmitUsageEvent :=
          (\<lambda>history event. if event = ''bad'' then Some (Failure ''sink'') else None)\<rparr>\<rparr>)
      [(''aws/i-1'', ''node'')]
    = (None, (scenarioServer [])\<lparr>AccessPoint := scenarioAccessPoint\<lparr>SubmitUsageEvent :=
          (\<lambda>history event. if event = ''bad'' then Some (Failure ''sink'') else None)\<rparr>,
          usageEventCache := {''aws/i-1''}, submitted := [(''aws/i-1'', ''node'')]\<rparr>)
   \<and> ''aws/i-2'' \<notin> {''aws/i-1''}
   \<and> fst (emitUsageEvents
      ((scenarioServer [])\<lparr>AccessPoint := scenarioAccessPoint\<lparr>SubmitUsageEvent :=
          (\<lambda>history event. if event = ''bad'' then Some (Failure ''sink'') else None)\<rparr>\<rparr>)
      ([(''aws/i-1'', ''node'')] @ (''aws/i-2'', ''bad'') # [(''aws/i-3'', ''node'')]))
     = Some (Failure ''sink'')
   \<and> sink_calls (emitUsageEvents_calls (snd (emitUsageEvents
      ((scenarioServer [])\<lparr>AccessPoint := scenarioAccessPoint\<lparr>SubmitUsageEvent :=
          (\<lambda>history event. if event = ''bad'' then Some (Failure ''sink'') else None)\<rparr>\<rparr>)
      ([(''aws/i-1'', ''node'')] @ (''aws/i-2'', ''bad'') # [(''aws/i-3'', ''node'')])))
        [[(''aws/i-2'', ''bad''), (''aws/i-3'', ''node'')]]) ''aws/i-2''
     = [(''aws/i-2'', ''bad'')]"
  using sink_error_keeps_name [of
      "(scenarioServer [])\<lparr>AccessPoint := scenarioAccessPoint\<lparr>SubmitUsageEvent :=
          (\<lambda>history event. if event = ''bad'' then Some (Failure ''sink'') else None)\<rparr>\<rparr>"
      "[(''aws/i-1'', ''node'')]"
      "(scenarioServer [])\<lparr>AccessPoint := scenarioAccessPoint\<lparr>SubmitUsageEvent :=
          (\<lambda>history event. if event = ''bad'' then Some (Failure ''sink'') else None)\<rparr>,
          usageEventCache := {''aws/i-1''}, submitted := [(''aws/i-1'', ''node'')]\<rparr>"
      "''aws/i-2''" "''bad''" "Failure ''sink''" "[(''aws/i-3'', ''node'')]"
      "[[(''aws/i-2'', ''bad''), (''aws/i-3'', ''node'')]]" "''aws/i-3''" "''node''"]
  by (simp add: scenarioServer_def scenarioAccessPoint_def sink_calls_def Let_def)

subsection \<open>Installer dispatch for EC2\<close>

lemma matchesEC2Node_known:
  "matchesEC2Node (GetNodes inventory
       (\<lambda>n. Labels n AWSAccountIDLabel \<noteq> None \<and> Labels n AWSInstanceIDLabel \<noteq> None))
     accountID inst = known_ec2 inventory accountID inst"
  by (induction inventory)
     (auto simp add: GetNodes_def known_ec2_def MatchLabels_def GetLabel_def)

lemma filterEC2_loop_filter:
  "filterEC2_loop nodes accountID insts filtered =
     filtered @ filter (\<lambda>inst. \<not> matchesEC2Node nodes accountID inst) insts"
  by (induction insts arbitrary: filtered) simp_all

lemma filterExistingEC2Nodes_eq:
  "filterExistingEC2Nodes s1 b =
     b\<lparr>Instances := filter (\<lambda>inst. \<not> known_ec2 (nodeWatcher s1) (AccountID b) inst) (Instances b)\<rparr>"
  by (simp add: filterExistingEC2Nodes_def Let_def filterEC2_loop_filter
        matchesEC2Node_known del: not_None_eq)

text \<open>The handler once the client and the server infos were obtained.\<close>

lemma handleEC2Instances_unfold:
  assumes "GetAWSSSMClient (CloudClients s) (Region b) = Inr c"
      and "ServerInfos pkg b = Inr si"
  shows "handleEC2Instances pkg s b =
    (let kept = ec2_kept (nodeWatcher s) b;
         s1 = s\<lparr>reconcilerQueue := reconcilerQueue s @ [si]\<rparr>
     in if kept = [] then (Some (NotFound ''all fetched nodes already enrolled''), s1)
        else
          let s3 = s1\<lparr>Log := Log s @ [(DebugLevel,
                      ''Running Teleport installation on these instances: AccountID: %s, Instances: %s'')],
                     ec2Runs := ec2Runs s @ [ec2_request c b kept]\<rparr>
          in (case ec2Installer s (ec2Runs s) (ec2_request c b kept) of
                Some err \<Rightarrow> (Some err, s3)
              | None \<Rightarrow>
                  (case emitUsageEvents s3 (EC2MakeEvents pkg (b\<lparr>Instances := kept\<rparr>)) of
                     (Some err, s4) \<Rightarrow> (None, logf DebugLevel ''Error emitting usage event.'' s4)
                   | (None, s4) \<Rightarrow> (None, s4))))"
proof (cases "Rotation b")
  case True
  then have "b\<lparr>Instances := ec2_kept (nodeWatcher s) b\<rparr> = b"
    by (simp add: ec2_kept_def)
  then show ?thesis
    unfolding handleEC2Instances_def using True
    by (simp add: assms Let_def logf_def ec2_request_def ec2_kept_def
          cong: option.case_cong prod.case_cong)
next
  case False
  then show ?thesis
    unfolding handleEC2Instances_def
    by (simp add: assms Let_def logf_def ec2_request_def ec2_kept_def filterExistingEC2Nodes_eq
          cong: option.case_cong prod.case_cong)
qed

lemma handleEC2Instances_runs:
  assumes "GetAWSSSMClient (CloudClients s) (Region b) = Inr c"
      and "ServerInfos pkg b = Inr si"
  shows "ec2Runs (snd (handleEC2Instances pkg s b)) =
           ec2Runs s @
           (if ec2_kept (nodeWatcher s) b = [] then []
            else [ec2_request c b (ec2_kept (nodeWatcher s) b)])"
proof (cases "ec2_kept (nodeWatcher s) b = []")
  case True
  then show ?thesis by (simp add: handleEC2Instances_unfold [OF assms])
next
  case False
  let ?kept = "ec2_kept (nodeWatcher s) b"
  let ?s3 = "s\<lparr>reconcilerQueue := reconcilerQueue s @ [si],
               Log := Log s @ [(DebugLevel,
                      ''Running Teleport installation on these instances: AccountID: %s, Instances: %s'')],
               ec2Runs := ec2Runs s @ [ec2_request c b ?kept]\<rparr>"
  obtain r s4 where em: "emitUsageEvents ?s3 (EC2MakeEvents pkg (b\<lparr>Instances := ?kept\<rparr>)) = (r, s4)"
    by (cases "emitUsageEvents ?s3 (EC2MakeEvents pkg (b\<lparr>Instances := ?kept\<rparr>))")
  have "ec2Runs s4 = ec2Runs ?s3" using em by (rule emitUsageEvents_keeps)
  then show ?thesis
    using False em
    by (simp add: handleEC2Instances_unfold [OF assms] Let_def logf_def split: option.splits)
qed

lemma handleEC2Instances_nodeWatcher:
  "nodeWatcher (snd (handleEC2Instances pkg s b)) = nodeWatcher s"
proof (cases "GetAWSSSMClient (CloudClients s) (Region b)")
  case (Inl err)
  then show ?thesis by (simp add: handleEC2Instances_def)
next
  case (Inr c)
  show ?thesis
  proof (cases "ServerInfos pkg b")
    case (Inl err)
    then show ?thesis using Inr by (simp add: handleEC2Instances_def)
  next
    case InrSI: (Inr si)
    let ?kept = "ec2_kept (nodeWatcher s) b"
    let ?s3 = "s\<lparr>reconcilerQueue := reconcilerQueue s @ [si],
               Log := Log s @ [(DebugLevel,
                      ''Running Teleport installation on these instances: AccountID: %s, Instances: %s'')],
               ec2Runs := ec2Runs s @ [ec2_request c b ?kept]\<rparr>"
    obtain r s4 where em: "emitUsageEvents ?s3 (EC2MakeEvents pkg (b\<lparr>Instances := ?kept\<rparr>)) = (r, s4)"
      by (cases "emitUsageEvents ?s3 (EC2MakeEvents pkg (b\<lparr>Instances := ?kept\<rparr>))")
    have "nodeWatcher s4 = nodeWatcher ?s3" using em by (rule emitUsageEvents_keeps)
    then show ?thesis
      using em
      by (simp add: handleEC2Instances_unfold [OF Inr InrSI] Let_def logf_def split: option.splits)
  qed
qed

lemma handleEC2Instances_fresh:
  assumes inv: "list_all (ec2_fresh (nodeWatcher s)) (ec2Runs s)" and rot: "\<not> Rotation b"
  shows "list_all (ec2_fresh (nodeWatcher s)) (ec2Runs (snd (handleEC2Instances pkg s b)))"
proof (cases "GetAWSSSMClient (CloudClients s) (Region b)")
  case (Inl err)
  then show ?thesis using inv by (simp add: handleEC2Instances_def)
next
  case (Inr c)
  show ?thesis
  proof (cases "ServerInfos pkg b")
    case (Inl err)
    then show ?thesis using Inr inv by (simp add: handleEC2Instances_def)
  next
    case InrSI: (Inr si)
    have "ec2_fresh (nodeWatcher s) (ec2_request c b (ec2_kept (nodeWatcher s) b))"
      using rot by (simp add: ec2_fresh_def ec2_kept_def ec2_request_def list_all_iff)
    then show ?thesis
      using inv handleEC2Instances_runs [OF Inr InrSI] by simp
  qed
qed

lemma logHandleInstancesErr_fields:
  "nodeWatcher (logHandleInstancesErr s err) = nodeWatcher s"
  "ec2Runs (logHandleInstancesErr s err) = ec2Runs s"
  by (simp_all add: logHandleInstancesErr_def logf_def)

lemma handleEC2Discovery_fresh:
  assumes "list_all (ec2_fresh inventory) (ec2Runs s)" and "nodeWatcher s = inventory"
      and "list_all (\<lambda>b. \<not> Rotation b) bs"
  shows "list_all (ec2_fresh inventory) (ec2Runs (handleEC2Discovery pkg s bs))
       \<and> nodeWatcher (handleEC2Discovery pkg s bs) = inventory"
  using assms
proof (induction bs arbitrary: s)
  case Nil
  then show ?case by simp
next
  case (Cons b bs)
  let ?s1 = "logf DebugLevel
     ''EC2 instances discovered (AccountID: %s, Instances: %v), starting installation'' s"
  have nw1: "nodeWatcher ?s1 = inventory" and runs1: "ec2Runs ?s1 = ec2Runs s"
    using Cons.prems by (simp_all add: logf_def)
  obtain r s2 where h: "handleEC2Instances pkg ?s1 b = (r, s2)"
    by (cases "handleEC2Instances pkg ?s1 b")
  have nw2: "nodeWatcher s2 = inventory"
    using handleEC2Instances_nodeWatcher [of pkg ?s1 b] h nw1 by simp
  have "list_all (ec2_fresh (nodeWatcher ?s1)) (ec2Runs (snd (handleEC2Instances pkg ?s1 b)))"
    using Cons.prems nw1 runs1 by (intro handleEC2Instances_fresh) simp_all
  then have fr2: "list_all (ec2_fresh inventory) (ec2Runs s2)"
    using h nw1 by simp
  let ?s3 = "case r of Some err \<Rightarrow> logHandleInstancesErr s2 err | None \<Rightarrow> s2"
  have "list_all (ec2_fresh inventory) (ec2Runs ?s3)" and "nodeWatcher ?s3 = inventory"
    using fr2 nw2 by (simp_all add: logHandleInstancesErr_fields split: option.splits)
  moreover have "list_all (\<lambda>b. \<not> Rotation b) bs" using Cons.prems by simp
  ultimately have "list_all (ec2_fresh inventory) (ec2Runs (handleEC2Discovery pkg ?s3 bs))
       \<and> nodeWatcher (handleEC2Discovery pkg ?s3 bs) = inventory"
    by (rule Cons.IH)
  moreover have "handleEC2Discovery pkg s (b # bs) = handleEC2Discovery pkg ?s3 bs"
    using h by (simp add: Let_def split: option.splits)
  ultimately show ?case by simp
qed

text \<open>
  Claim C1, as the code has it. When handleEC2Instances has obtained its client and the
  server infos, it runs the installer at most once: not at all when no instance remains,
  and otherwise once, on the request built from the batch for the instances that remain.
  For a batch whose Rotation flag is false these are the instances whose identity
  (account ID and instance ID) matches no node of the inventory; for a rotation batch
  they are all the instances of the batch, unfiltered. Over any sequence of batches
  without the Rotation flag, handled one after the other by handleEC2Discovery against
  the same inventory, no instance that is known to the inventory is passed to the
  installer. An instance that the inventory does not know is passed to the installer
  again each time it is discovered: the counterexample feeds the same instance twice
  against an empty inventory that stays empty, and the installer is run twice on it.
\<close>

theorem ec2_dispatch_dedup:
  "(GetAWSSSMClient (CloudClients s) (Region b) = Inr c \<and> ServerInfos pkg b = Inr si \<longrightarrow>
      ec2Runs (snd (handleEC2Instances pkg s b)) =
        ec2Runs s @ (if ec2_kept (nodeWatcher s) b = [] then []
                     else [ec2_request c b (ec2_kept (nodeWatcher s) b)]))
   \<and> (list_all (\<lambda>b. \<not> Rotation b) bs \<and> list_all (ec2_fresh (nodeWatcher s)) (ec2Runs s) \<longrightarrow>
      list_all (ec2_fresh (nodeWatcher s)) (ec2Runs (handleEC2Discovery pkg s bs)))"
  using handleEC2Instances_runs [of s b c pkg si]
    handleEC2Discovery_fresh [of "nodeWatcher s" s bs pkg]
  by blast

theorem ec2_dispatch_dedup_witness:
  "GetAWSSSMClient (CloudClients (scenarioServer
       [enrolledEC2Node ''123456789012'' ''i-1'' 0, enrolledEC2Node ''123456789012'' ''i-2'' 0]))
     (Region (scenarioBatch [''i-1'', ''i-2'', ''i-3''])) = Inr ()
   \<and> ServerInfos scenarioPkg (scenarioBatch [''i-1'', ''i-2'', ''i-3'']) = Inr [(), (), ()]
   \<and> map ssm_Instances (ec2Runs (snd (handleEC2Instances scenarioPkg (scenarioServer
       [enrolledEC2Node ''123456789012'' ''i-1'' 0, enrolledEC2Node ''123456789012'' ''i-2'' 0])
       (scenarioBatch [''i-1'', ''i-2'', ''i-3''])))) = [[\<lparr>InstanceID = ''i-3''\<rparr>]]
   \<and> list_all (\<lambda>b. \<not> Rotation b) [scenarioBatch [''i-1'', ''i-2'', ''i-3''], scenarioBatch [''i-3'']]
   \<and> list_all (ec2_fresh [enrolledEC2Node ''123456789012'' ''i-1'' 0, enrolledEC2Node ''123456789012'' ''i-2'' 0])
        (ec2Runs (handleEC2Discovery scenarioPkg (scenarioServer
          [enrolledEC2Node ''123456789012'' ''i-1'' 0, enrolledEC2Node ''123456789012'' ''i-2'' 0])
          [scenarioBatch [''i-1'', ''i-2'', ''i-3''], scenarioBatch [''i-3'']]))"
  using ec2_dispatch_dedup [of
      "scenarioServer [enrolledEC2Node ''123456789012'' ''i-1'' 0, enrolledEC2Node ''123456789012'' ''i-2'' 0]"
      "scenarioBatch [''i-1'', ''i-2'', ''i-3'']" "()" scenarioPkg "[(), (), ()]"
      "[scenarioBatch [''i-1'', ''i-2'', ''i-3''], scenarioBatch [''i-3'']]"]
  by (simp add: scenario_defs ec2_kept_def known_ec2_def ec2_request_def label_defs)

text \<open>
  The claim as it was stated fails for an instance that the inventory does not know: fed
  twice, without the Rotation flag and against an inventory that stays empty, it is
  passed to two runs of the installer.
\<close>

theorem same_instance_twice_counterexample:
  "\<not> Rotation (scenarioBatch [''i-1''])
   \<and> nodeWatcher (handleEC2Discovery scenarioPkg (scenarioServer [])
        [scenarioBatch [''i-1''], scenarioBatch [''i-1'']]) = []
   \<and> map ssm_Instances (ec2Runs (handleEC2Discovery scenarioPkg (scenarioServer [])
        [scenarioBatch [''i-1''], scenarioBatch [''i-1'']]))
      = [[\<lparr>InstanceID = ''i-1''\<rparr>], [\<lparr>InstanceID = ''i-1''\<rparr>]]"
  by (simp add: scenario_defs handleEC2Instances_def filterExistingEC2Nodes_def GetNodes_def
        Let_def logf_def)

subsection \<open>No new instances\<close>

lemma handleEC2_no_new:
  assumes "GetAWSSSMClient (CloudClients s) (Region b) = Inr c"
      and "ServerInfos pkg b = Inr si"
      and "ec2_kept (nodeWatcher s) b = []"
  shows "handleEC2Instances pkg s b =
           (Some (NotFound ''all fetched nodes already enrolled''),
            s\<lparr>reconcilerQueue := reconcilerQueue s @ [si]\<rparr>)"
    and "handleEC2Discovery pkg s (b # rest) =
           handleEC2Discovery pkg
             (s\<lparr>reconcilerQueue := reconcilerQueue s @ [si],
                Log := Log s @
                  [(DebugLevel, ''EC2 instances discovered (AccountID: %s, Instances: %v), starting installation''),
                   (DebugLevel, ''All discovered EC2 instances are already part of the cluster.'')]\<rparr>) rest"
proof -
  show "handleEC2Instances pkg s b =
           (Some (NotFound ''all fetched nodes already enrolled''),
            s\<lparr>reconcilerQueue := reconcilerQueue s @ [si]\<rparr>)"
    using assms(3) by (simp add: handleEC2Instances_unfold [OF assms(1,2)])
  let ?s1 = "logf DebugLevel
     ''EC2 instances discovered (AccountID: %s, Instances: %v), starting installation'' s"
  have c1: "GetAWSSSMClient (CloudClients ?s1) (Region b) = Inr c"
    using assms(1) by (simp add: logf_def)
  have k1: "ec2_kept (nodeWatcher ?s1) b = []" using assms(3) by (simp add: logf_def)
  have "handleEC2Instances pkg ?s1 b =
           (Some (NotFound ''all fetched nodes already enrolled''),
            ?s1\<lparr>reconcilerQueue := reconcilerQueue ?s1 @ [si]\<rparr>)"
    using k1 by (simp add: handleEC2Instances_unfold [OF c1 assms(2)])
  then show "handleEC2Discovery pkg s (b # rest) =
           handleEC2Discovery pkg
             (s\<lparr>reconcilerQueue := reconcilerQueue s @ [si],
                Log := Log s @
                  [(DebugLevel, ''EC2 instances discovered (AccountID: %s, Instances: %v), starting installation''),
                   (DebugLevel, ''All discovered EC2 instances are already part of the cluster.'')]\<rparr>) rest"
    by (simp add: logHandleInstancesErr_def IsNotFound_def logf_def)
qed

lemma filterExistingAzureNodes_logf:
  "filterExistingAzureNodes (logf lvl msg s) b = filterExistingAzureNodes s b"
  by (simp add: filterExistingAzureNodes_def logf_def)

lemma handleAzure_no_new:
  assumes "GetAzureRunCommandClient (CloudClients s) (SubscriptionID b) = Inr c"
      and "az_Instances (filterExistingAzureNodes s b) = []"
  shows "handleAzureInstances pkg s b = (Some errNoInstances, s)"
    and "handleAzureDiscovery pkg s (b # rest) =
           handleAzureDiscovery pkg
             (s\<lparr>Log := Log s @
                  [(DebugLevel, ''Azure instances discovered (SubscriptionID: %s, Instances: %v), starting installation''),
                   (DebugLevel, ''All discovered Azure VMs are already part of the cluster.'')]\<rparr>) rest"
proof -
  show "handleAzureInstances pkg s b = (Some errNoInstances, s)"
    using assms by (simp add: handleAzureInstances_def Let_def)
  let ?s1 = "logf DebugLevel
     ''Azure instances discovered (SubscriptionID: %s, Instances: %v), starting installation'' s"
  have c1: "GetAzureRunCommandClient (CloudClients ?s1) (SubscriptionID b) = Inr c"
    using assms(1) by (simp add: logf_def)
  have "handleAzureInstances pkg ?s1 b = (Some errNoInstances, ?s1)"
    using c1 assms(2) by (simp add: handleAzureInstances_def Let_def filterExistingAzureNodes_logf)
  then show "handleAzureDiscovery pkg s (b # rest) =
           handleAzureDiscovery pkg
             (s\<lparr>Log := Log s @
                  [(DebugLevel, ''Azure instances discovered (SubscriptionID: %s, Instances: %v), starting installation''),
                   (DebugLevel, ''All discovered Azure VMs are already part of the cluster.'')]\<rparr>) rest"
    by (simp add: logf_def)
qed

lemma filterExistingGCPNodes_logf:
  "filterExistingGCPNodes (logf lvl msg s) b = filterExistingGCPNodes s b"
  by (simp add: filterExistingGCPNodes_def logf_def)

lemma handleGCP_no_new:
  assumes "GetGCPInstancesClient (CloudClients s) = Inr c"
      and "gcp_Instances (filterExistingGCPNodes s b) = []"
  shows "handleGCPInstances pkg s b = (Some errNoInstances, s)"
    and "handleGCPDiscovery pkg s (b # rest) =
           handleGCPDiscovery pkg
             (s\<lparr>Log := Log s @
                  [(DebugLevel, ''GCP instances discovered (ProjectID: %s, Instances %v), starting installation''),
                   (DebugLevel, ''All discovered GCP VMs are already part of the cluster.'')]\<rparr>) rest"
proof -
  show "handleGCPInstances pkg s b = (Some errNoInstances, s)"
    using assms by (simp add: handleGCPInstances_def Let_def)
  let ?s1 = "logf DebugLevel
     ''GCP instances discovered (ProjectID: %s, Instances %v), starting installation'' s"
  have c1: "GetGCPInstancesClient (CloudClients ?s1) = Inr c"
    using assms(1) by (simp add: logf_def)
  have "handleGCPInstances pkg ?s1 b = (Some errNoInstances, ?s1)"
    using c1 assms(2) by (simp add: handleGCPInstances_def Let_def filterExistingGCPNodes_logf)
  then show "handleGCPDiscovery pkg s (b # rest) =
           handleGCPDiscovery pkg
             (s\<lparr>Log := Log s @
                  [(DebugLevel, ''GCP instances discovered (ProjectID: %s, Instances %v), starting installation''),
                   (DebugLevel, ''All discovered GCP VMs are already part of the cluster.'')]\<rparr>) rest"
    by (simp add: logf_def)
qed

text \<open>
  When no instance of a batch remains for the installer, the handler of each of the three
  providers returns the value that stands for "no new instances" and nothing else
  happens. For EC2 (once the client and the server infos were obtained) it is a
  not-found error, which \<open>IsNotFound\<close> recognises; the state is left as it was but
  for the server infos queued for the label reconciler, so the installer was not run and
  no usage event was submitted. For Azure and GCP (once the client was obtained) it is
  \<open>errNoInstances\<close> and the state is unchanged. The discovery loop of the provider
  then logs one line at debug level and goes on with the batches that follow.
\<close>

lemma no_new_instances:
  "(GetAWSSSMClient (CloudClients s) (Region b) = Inr c \<and> ServerInfos pkg b = Inr si
      \<and> ec2_kept (nodeWatcher s) b = [] \<longrightarrow>
      handleEC2Instances pkg s b =
        (Some (NotFound ''all fetched nodes already enrolled''),
         s\<lparr>reconcilerQueue := reconcilerQueue s @ [si]\<rparr>)
      \<and> IsNotFound (NotFound ''all fetched nodes already enrolled'')
      \<and> ec2Runs (snd (handleEC2Instances pkg s b)) = ec2Runs s
      \<and> submitted (snd (handleEC2Instances pkg s b)) = submitted s
      \<and> handleEC2Discovery pkg s (b # rest) =
          handleEC2Discovery pkg
            (s\<lparr>reconcilerQueue := reconcilerQueue s @ [si],
               Log := Log s @
                 [(DebugLevel, ''EC2 instances discovered (AccountID: %s, Instances: %v), starting installation''),
                  (DebugLevel, ''All discovered EC2 instances are already part of the cluster.'')]\<rparr>) rest)
   \<and> (GetAzureRunCommandClient (CloudClients s) (SubscriptionID ab) = Inr ac
      \<and> az_Instances (filterExistingAzureNodes s ab) = [] \<longrightarrow>
      handleAzureInstances pkg s ab = (Some errNoInstances, s)
      \<and> handleAzureDiscovery pkg s (ab # arest) =
          handleAzureDiscovery pkg
            (s\<lparr>Log := Log s @
                 [(DebugLevel, ''Azure instances discovered (SubscriptionID: %s, Instances: %v), starting installation''),
                  (DebugLevel, ''All discovered Azure VMs are already part of the cluster.'')]\<rparr>) arest)
   \<and> (GetGCPInstancesClient (CloudClients s) = Inr gc
      \<and> gcp_Instances (filterExistingGCPNodes s gb) = [] \<longrightarrow>
      handleGCPInstances pkg s gb = (Some errNoInstances, s)
      \<and> handleGCPDiscovery pkg s (gb # grest) =
          handleGCPDiscovery pkg
            (s\<lparr>Log := Log s @
                 [(DebugLevel, ''GCP instances discovered (ProjectID: %s, Instances %v), starting installation''),
                  (DebugLevel, ''All discovered GCP VMs are already part of the cluster.'')]\<rparr>) grest)"
proof -
  have ec2: "GetAWSSSMClient (CloudClients s) (Region b) = Inr c \<and> ServerInfos pkg b = Inr si
      \<and> ec2_kept (nodeWatcher s) b = [] \<longrightarrow>
      handleEC2Instances pkg s b =
        (Some (NotFound ''all fetched nodes already enrolled''),
         s\<lparr>reconcilerQueue := reconcilerQueue s @ [si]\<rparr>)
      \<and> IsNotFound (NotFound ''all fetched nodes already enrolled'')
      \<and> ec2Runs (snd (handleEC2Instances pkg s b)) = ec2Runs s
      \<and> submitted (snd (handleEC2Instances pkg s b)) = submitted s
      \<and> handleEC2Discovery pkg s (b # rest) =
          handleEC2Discovery pkg
            (s\<lparr>reconcilerQueue := reconcilerQueue s @ [si],
               Log := Log s @
                 [(DebugLevel, ''EC2 instances discovered (AccountID: %s, Instances: %v), starting installation''),
                  (DebugLevel, ''All discovered EC2 instances are already part of the cluster.'')]\<rparr>) rest"
    by (simp add: handleEC2_no_new IsNotFound_def del: handleEC2Discovery.simps)
  have az: "GetAzureRunCommandClient (CloudClients s) (SubscriptionID ab) = Inr ac
      \<and> az_Instances (filterExistingAzureNodes s ab) = [] \<longrightarrow>
      handleAzureInstances pkg s ab = (Some errNoInstances, s)
      \<and> handleAzureDiscovery pkg s (ab # arest) =
          handleAzureDiscovery pkg
            (s\<lparr>Log := Log s @
                 [(DebugLevel, ''Azure instances discovered (SubscriptionID: %s, Instances: %v), starting installation''),
                  (DebugLevel, ''All discovered Azure VMs are already part of the cluster.'')]\<rparr>) arest"
    by (simp add: handleAzure_no_new del: handleAzureDiscovery.simps)
  have gcp: "GetGCPInstancesClient (CloudClients s) = Inr gc
      \<and> gcp_Instances (filterExistingGCPNodes s gb) = [] \<longrightarrow>
      handleGCPInstances pkg s gb = (Some errNoInstances, s)
      \<and> handleGCPDiscovery pkg s (gb # grest) =
          handleGCPDiscovery pkg
            (s\<lparr>Log := Log s @
                 [(DebugLevel, ''GCP instances discovered (ProjectID: %s, Instances %v), starting installation''),
                  (DebugLevel, ''All discovered GCP VMs are already part of the cluster.'')]\<rparr>) grest"
    by (simp add: handleGCP_no_new del: handleGCPDiscovery.simps)
  from ec2 az gcp show ?thesis by blast
qed

lemma no_new_instances_scenario:
  "GetAWSSSMClient (CloudClients (scenarioServer scenarioInventory))
       (Region (scenarioBatch [''i-1''])) = Inr ()
   \<and> ServerInfos scenarioPkg (scenarioBatch [''i-1'']) = Inr [()]
   \<and> ec2_kept (nodeWatcher (scenarioServer scenarioInventory)) (scenarioBatch [''i-1'']) = []
   \<and> fst (handleEC2Instances scenarioPkg (scenarioServer scenarioInventory) (scenarioBatch [''i-1'']))
       = Some (NotFound ''all fetched nodes already enrolled'')
   \<and> GetAzureRunCommandClient (CloudClients (scenarioServer scenarioInventory))
       (SubscriptionID (scenarioAzureBatch [''vm-1''])) = Inr ()
   \<and> az_Instances (filterExistingAzureNodes (scenarioServer scenarioInventory)
        (scenarioAzureBatch [''vm-1''])) = []
   \<and> handleAzureInstances scenarioPkg (scenarioServer scenarioInventory) (scenarioAzureBatch [''vm-1''])
       = (Some errNoInstances, scenarioServer scenarioInventory)
   \<and> GetGCPInstancesClient (CloudClients (scenarioServer scenarioInventory)) = Inr ()
   \<and> gcp_Instances (filterExistingGCPNodes (scenarioServer scenarioInventory)
        (scenarioGCPBatch [''vm-1''])) = []
   \<and> handleGCPInstances scenarioPkg (scenarioServer scenarioInventory) (scenarioGCPBatch [''vm-1''])
       = (Some errNoInstances, scenarioServer scenarioInventory)"
proof -
  have h1: "GetAWSSSMClient (CloudClients (scenarioServer scenarioInventory))
       (Region (scenarioBatch [''i-1''])) = Inr ()
     \<and> ServerInfos scenarioPkg (scenarioBatch [''i-1'']) = Inr [()]
     \<and> ec2_kept (nodeWatcher (scenarioServer scenarioInventory)) (scenarioBatch [''i-1'']) = []"
    by (simp add: scenario_defs scenarioInventory_def ec2_kept_def known_ec2_def label_defs)
  have h2: "GetAzureRunCommandClient (CloudClients (scenarioServer scenarioInventory))
       (SubscriptionID (scenarioAzureBatch [''vm-1''])) = Inr ()
     \<and> az_Instances (filterExistingAzureNodes (scenarioServer scenarioInventory)
        (scenarioAzureBatch [''vm-1''])) = []"
    by (simp add: scenario_defs scenarioInventory_def scenarioAzureBatch_def enrolledAzureNode_def
          enrolledGCPNode_def filterExistingAzureNodes_def GetNodes_def MatchLabels_def
          GetLabel_def StringValue_def label_defs)
  have h3: "GetGCPInstancesClient (CloudClients (scenarioServer scenarioInventory)) = Inr ()
     \<and> gcp_Instances (filterExistingGCPNodes (scenarioServer scenarioInventory)
        (scenarioGCPBatch [''vm-1''])) = []"
    by (simp add: scenario_defs scenarioInventory_def scenarioGCPBatch_def enrolledAzureNode_def
          enrolledGCPNode_def filterExistingGCPNodes_def GetNodes_def MatchLabels_def
          GetLabel_def label_defs)
  show ?thesis
    using h1 h2 h3
      no_new_instances [where s = "scenarioServer scenarioInventory"
        and b = "scenarioBatch [''i-1'']" and c = "()" and pkg = scenarioPkg and si = "[()]"
        and ab = "scenarioAzureBatch [''vm-1'']" and ac = "()"
        and gb = "scenarioGCPBatch [''vm-1'']" and gc = "()"]
    by simp
qed

text \<open>
  Real failures and the value that stands for "no new instances". The Azure and GCP
  handlers return \<open>errNoInstances\<close>, a variable of the package that is not exported,
  and their loops test for that very value. The EC2 handler returns a fresh not-found
  error, and \<open>logHandleInstancesErr\<close> tests for the kind of the error alone.
\<close>

lemma logHandleInstancesErr_not_found:
  "IsNotFound err \<Longrightarrow>
   logHandleInstancesErr s err =
     logf DebugLevel ''All discovered EC2 instances are already part of the cluster.'' s"
  by (cases err) (simp_all add: logHandleInstancesErr_def IsNotFound_def)

lemma handleEC2_run_failure:
  assumes "GetAWSSSMClient (CloudClients s) (Region b) = Inr c"
      and "ServerInfos pkg b = Inr si"
      and "ec2_kept (nodeWatcher s) b \<noteq> []"
      and "ec2Installer s (ec2Runs s) (ec2_request c b (ec2_kept (nodeWatcher s) b)) = Some err"
  shows "handleEC2Instances pkg s b =
     (Some err,
      s\<lparr>reconcilerQueue := reconcilerQueue s @ [si],
        Log := Log s @ [(DebugLevel,
          ''Running Teleport installation on these instances: AccountID: %s, Instances: %s'')],
        ec2Runs := ec2Runs s @ [ec2_request c b (ec2_kept (nodeWatcher s) b)]\<rparr>)"
  using assms(3,4) by (simp add: handleEC2Instances_unfold [OF assms(1,2)] Let_def)

lemma handleEC2_run_failure_loop:
  assumes "GetAWSSSMClient (CloudClients s) (Region b) = Inr c"
      and "ServerInfos pkg b = Inr si"
      and "ec2_kept (nodeWatcher s) b \<noteq> []"
      and "ec2Installer s (ec2Runs s) (ec2_request c b (ec2_kept (nodeWatcher s) b)) = Some err"
      and "IsNotFound err"
  shows "handleEC2Discovery pkg s (b # rest) =
     handleEC2Discovery pkg
       (s\<lparr>reconcilerQueue := reconcilerQueue s @ [si],
          ec2Runs := ec2Runs s @ [ec2_request c b (ec2_kept (nodeWatcher s) b)],
          Log := Log s @
            [(DebugLevel, ''EC2 instances discovered (AccountID: %s, Instances: %v), starting installation''),
             (DebugLevel, ''Running Teleport installation on these instances: AccountID: %s, Instances: %s''),
             (DebugLevel, ''All discovered EC2 instances are already part of the cluster.'')]\<rparr>) rest"
proof -
  let ?s1 = "logf DebugLevel
     ''EC2 instances discovered (AccountID: %s, Instances: %v), starting installation'' s"
  have c1: "GetAWSSSMClient (CloudClients ?s1) (Region b) = Inr c"
    using assms(1) by (simp add: logf_def)
  have k1: "ec2_kept (nodeWatcher ?s1) b \<noteq> []" using assms(3) by (simp add: logf_def)
  have i1: "ec2Installer ?s1 (ec2Runs ?s1) (ec2_request c b (ec2_kept (nodeWatcher ?s1) b)) = Some err"
    using assms(4) by (simp add: logf_def)
  note h = handleEC2_run_failure [OF c1 assms(2) k1 i1]
  show ?thesis
    by (simp add: h logHandleInstancesErr_not_found [OF assms(5)]) (simp add: logf_def)
qed

lemma handleEC2_client_failure_loop:
  assumes "GetAWSSSMClient (CloudClients s) (Region b) = Inl err" and "IsNotFound err"
  shows "handleEC2Instances pkg s b = (Some err, s)"
    and "handleEC2Discovery pkg s (b # rest) =
     handleEC2Discovery pkg
       (s\<lparr>Log := Log s @
            [(DebugLevel, ''EC2 instances discovered (AccountID: %s, Instances: %v), starting installation''),
             (DebugLevel, ''All discovered EC2 instances are already part of the cluster.'')]\<rparr>) rest"
proof -
  show "handleEC2Instances pkg s b = (Some err, s)"
    using assms(1) by (simp add: handleEC2Instances_def)
  let ?s1 = "logf DebugLevel
     ''EC2 instances discovered (AccountID: %s, Instances: %v), starting installation'' s"
  have "handleEC2Instances pkg ?s1 b = (Some err, ?s1)"
    using assms(1) by (simp add: handleEC2Instances_def logf_def)
  then show "handleEC2Discovery pkg s (b # rest) =
     handleEC2Discovery pkg
       (s\<lparr>Log := Log s @
            [(DebugLevel, ''EC2 instances discovered (AccountID: %s, Instances: %v), starting installation''),
             (DebugLevel, ''All discovered EC2 instances are already part of the cluster.'')]\<rparr>) rest"
    by (simp add: logHandleInstancesErr_not_found [OF assms(2)]) (simp add: logf_def)
qed

lemma fst_run_result:
  "fst (case r of
          Some err \<Rightarrow> (Some err, s3)
        | None \<Rightarrow> (case p of
                     (Some err, s4) \<Rightarrow> (None, f s4)
                   | (None, s4) \<Rightarrow> (None, g s4))) = r"
  by (cases r) (auto split: prod.splits option.splits)

lemma handleAzure_sentinel:
  assumes "GetAzureRunCommandClient (CloudClients s) (SubscriptionID ab) \<noteq> Inl errNoInstances"
      and "\<forall>runs req. azureInstaller s runs req \<noteq> Some errNoInstances"
  shows "(fst (handleAzureInstances pkg s ab) = Some errNoInstances) =
         ((\<exists>client. GetAzureRunCommandClient (CloudClients s) (SubscriptionID ab) = Inr client)
          \<and> az_Instances (filterExistingAzureNodes s ab) = [])"
proof (cases "GetAzureRunCommandClient (CloudClients s) (SubscriptionID ab)")
  case (Inl err)
  then show ?thesis using assms(1) by (simp add: handleAzureInstances_def)
next
  case (Inr client)
  show ?thesis
  proof (cases "az_Instances (filterExistingAzureNodes s ab) = []")
    case True
    then show ?thesis using Inr by (simp add: handleAzureInstances_def Let_def)
  next
    case False
    have i: "azureInstaller s runs req \<noteq> Some errNoInstances" for runs req
      using assms(2) by simp
    show ?thesis
      using Inr False i
      by (simp add: handleAzureInstances_def Let_def logf_def fst_run_result)
  qed
qed

lemma handleGCP_sentinel:
  assumes "GetGCPInstancesClient (CloudClients s) \<noteq> Inl errNoInstances"
      and "\<forall>runs req. gcpInstaller s runs req \<noteq> Some errNoInstances"
  shows "(fst (handleGCPInstances pkg s gb) = Some errNoInstances) =
         ((\<exists>client. GetGCPInstancesClient (CloudClients s) = Inr client)
          \<and> gcp_Instances (filterExistingGCPNodes s gb) = [])"
proof (cases "GetGCPInstancesClient (CloudClients s)")
  case (Inl err)
  then show ?thesis using assms(1) by (simp add: handleGCPInstances_def)
next
  case (Inr client)
  show ?thesis
  proof (cases "gcp_Instances (filterExistingGCPNodes s gb) = []")
    case True
    then show ?thesis using Inr by (simp add: handleGCPInstances_def Let_def)
  next
    case False
    have i: "gcpInstaller s runs req \<noteq> Some errNoInstances" for runs req
      using assms(2) by simp
    show ?thesis
      using Inr False i
      by (simp add: handleGCPInstances_def Let_def logf_def fst_run_result)
  qed
qed

lemma handleAzure_failure_loop:
  assumes "handleAzureInstances pkg
      (logf DebugLevel ''Azure instances discovered (SubscriptionID: %s, Instances: %v), starting installation'' s)
      ab = (Some err, s2)" and "err \<noteq> errNoInstances"
  shows "handleAzureDiscovery pkg s (ab # arest) =
     handleAzureDiscovery pkg (logf ErrorLevel ''Failed to enroll discovered Azure VMs.'' s2) arest"
  using assms by simp

lemma handleGCP_failure_loop:
  assumes "handleGCPInstances pkg
      (logf DebugLevel ''GCP instances discovered (ProjectID: %s, Instances %v), starting installation'' s)
      gb = (Some err, s2)" and "err \<noteq> errNoInstances"
  shows "handleGCPDiscovery pkg s (gb # grest) =
     handleGCPDiscovery pkg (logf ErrorLevel ''Failed to enroll discovered GCP VMs.'' s2) grest"
  using assms by simp

text \<open>
  Claim C7. The value that stands for "no new instances" is distinct from real failures
  for Azure and GCP, and it is not for EC2. For EC2: when the installer was run on the
  instances that remain and fails with an error of the not-found kind, the handler
  returns that error with the run recorded, and the discovery loop logs the debug line
  "All discovered EC2 instances are already part of the cluster." and goes on, as it
  does for a batch with no new instance; the same happens when the SSM client cannot be
  obtained for an error of that kind. For Azure and GCP: as long as the client getter
  and the installer do not return \<open>errNoInstances\<close> themselves, the handler returns
  \<open>errNoInstances\<close> exactly when the client was obtained and no instance remains,
  and the discovery loop logs every other error of the handler at error level.
\<close>

theorem ec2_failure_logged_as_no_new_instances:
  "(GetAWSSSMClient (CloudClients s) (Region b) = Inr c \<and> ServerInfos pkg b = Inr si
      \<and> ec2_kept (nodeWatcher s) b \<noteq> []
      \<and> ec2Installer s (ec2Runs s) (ec2_request c b (ec2_kept (nodeWatcher s) b)) = Some err
      \<and> IsNotFound err \<longrightarrow>
      handleEC2Instances pkg s b =
        (Some err,
         s\<lparr>reconcilerQueue := reconcilerQueue s @ [si],
           Log := Log s @ [(DebugLevel,
             ''Running Teleport installation on these instances: AccountID: %s, Instances: %s'')],
           ec2Runs := ec2Runs s @ [ec2_request c b (ec2_kept (nodeWatcher s) b)]\<rparr>)
      \<and> handleEC2Discovery pkg s (b # rest) =
          handleEC2Discovery pkg
            (s\<lparr>reconcilerQueue := reconcilerQueue s @ [si],
               ec2Runs := ec2Runs s @ [ec2_request c b (ec2_kept (nodeWatcher s) b)],
               Log := Log s @
                 [(DebugLevel, ''EC2 instances discovered (AccountID: %s, Instances: %v), starting installation''),
                  (DebugLevel, ''Running Teleport installation on these instances: AccountID: %s, Instances: %s''),
                  (DebugLevel, ''All discovered EC2 instances are already part of the cluster.'')]\<rparr>) rest)
   \<and> (GetAWSSSMClient (CloudClients s) (Region b) = Inl err \<and> IsNotFound err \<longrightarrow>
      handleEC2Instances pkg s b = (Some err, s)
      \<and> handleEC2Discovery pkg s (b # rest) =
          handleEC2Discovery pkg
            (s\<lparr>Log := Log s @
                 [(DebugLevel, ''EC2 instances discovered (AccountID: %s, Instances: %v), starting installation''),
                  (DebugLevel, ''All discovered EC2 instances are already part of the cluster.'')]\<rparr>) rest)
   \<and> (GetAzureRunCommandClient (CloudClients s) (SubscriptionID ab) \<noteq> Inl errNoInstances
      \<and> (\<forall>runs req. azureInstaller s runs req \<noteq> Some errNoInstances) \<longrightarrow>
      (fst (handleAzureInstances pkg s ab) = Some errNoInstances) =
        ((\<exists>client. GetAzureRunCommandClient (CloudClients s) (SubscriptionID ab) = Inr client)
         \<and> az_Instances (filterExistingAzureNodes s ab) = []))
   \<and> (handleAzureInstances pkg
        (logf DebugLevel ''Azure instances discovered (SubscriptionID: %s, Instances: %v), starting installation'' s)
        ab = (Some aerr, as2) \<and> aerr \<noteq> errNoInstances \<longrightarrow>
      handleAzureDiscovery pkg s (ab # arest) =
        handleAzureDiscovery pkg (logf ErrorLevel ''Failed to enroll discovered Azure VMs.'' as2) arest)
   \<and> (GetGCPInstancesClient (CloudClients s) \<noteq> Inl errNoInstances
      \<and> (\<forall>runs req. gcpInstaller s runs req \<noteq> Some errNoInstances) \<longrightarrow>
      (fst (handleGCPInstances pkg s gb) = Some errNoInstances) =
        ((\<exists>client. GetGCPInstancesClient (CloudClients s) = Inr client)
         \<and> gcp_Instances (filterExistingGCPNodes s gb) = []))
   \<and> (handleGCPInstances pkg
        (logf DebugLevel ''GCP instances discovered (ProjectID: %s, Instances %v), starting installation'' s)
        gb = (Some gerr, gs2) \<and> gerr \<noteq> errNoInstances \<longrightarrow>
      handleGCPDiscovery pkg s (gb # grest) =
        handleGCPDiscovery pkg (logf ErrorLevel ''Failed to enroll discovered GCP VMs.'' gs2) grest)"
proof -
  have e1: "GetAWSSSMClient (CloudClients s) (Region b) = Inr c \<and> ServerInfos pkg b = Inr si
      \<and> ec2_kept (nodeWatcher s) b \<noteq> []
      \<and> ec2Installer s (ec2Runs s) (ec2_request c b (ec2_kept (nodeWatcher s) b)) = Some err
      \<and> IsNotFound err \<longrightarrow>
      handleEC2Instances pkg s b =
        (Some err,
         s\<lparr>reconcilerQueue := reconcilerQueue s @ [si],
           Log := Log s @ [(DebugLevel,
             ''Running Teleport installation on these instances: AccountID: %s, Instances: %s'')],
           ec2Runs := ec2Runs s @ [ec2_request c b (ec2_kept (nodeWatcher s) b)]\<rparr>)
      \<and> handleEC2Discovery pkg s (b # rest) =
          handleEC2Discovery pkg
            (s\<lparr>reconcilerQueue := reconcilerQueue s @ [si],
               ec2Runs := ec2Runs s @ [ec2_request c b (ec2_kept (nodeWatcher s) b)],
               Log := Log s @
                 [(DebugLevel, ''EC2 instances discovered (AccountID: %s, Instances: %v), starting installation''),
                  (DebugLevel, ''Running Teleport installation on these instances: AccountID: %s, Instances: %s''),
                  (DebugLevel, ''All discovered EC2 instances are already part of the cluster.'')]\<rparr>) rest"
  proof (intro impI conjI)
    assume h: "GetAWSSSMClient (CloudClients s) (Region b) = Inr c \<and> ServerInfos pkg b = Inr si
      \<and> ec2_kept (nodeWatcher s) b \<noteq> []
      \<and> ec2Installer s (ec2Runs s) (ec2_request c b (ec2_kept (nodeWatcher s) b)) = Some err
      \<and> IsNotFound err"
    then have h1: "GetAWSSSMClient (CloudClients s) (Region b) = Inr c"
      and h2: "ServerInfos pkg b = Inr si"
      and h3: "ec2_kept (nodeWatcher s) b \<noteq> []"
      and h4: "ec2Installer s (ec2Runs s) (ec2_request c b (ec2_kept (nodeWatcher s) b)) = Some err"
      and h5: "IsNotFound err"
      by (simp_all only: simp_thms)
    show "handleEC2Instances pkg s b =
        (Some err,
         s\<lparr>reconcilerQueue := reconcilerQueue s @ [si],
           Log := Log s @ [(DebugLevel,
             ''Running Teleport installation on these instances: AccountID: %s, Instances: %s'')],
           ec2Runs := ec2Runs s @ [ec2_request c b (ec2_kept (nodeWatcher s) b)]\<rparr>)"
      by (rule handleEC2_run_failure [OF h1 h2 h3 h4])
    show "handleEC2Discovery pkg s (b # rest) =
          handleEC2Discovery pkg
            (s\<lparr>reconcilerQueue := reconcilerQueue s @ [si],
               ec2Runs := ec2Runs s @ [ec2_request c b (ec2_kept (nodeWatcher s) b)],
               Log := Log s @
                 [(DebugLevel, ''EC2 instances discovered (AccountID: %s, Instances: %v), starting installation''),
                  (DebugLevel, ''Running Teleport installation on these instances: AccountID: %s, Instances: %s''),
                  (DebugLevel, ''All discovered EC2 instances are already part of the cluster.'')]\<rparr>) rest"
      by (rule handleEC2_run_failure_loop [OF h1 h2 h3 h4 h5])
  qed
  have e2: "GetAWSSSMClient (CloudClients s) (Region b) = Inl err \<and> IsNotFound err \<longrightarrow>
      handleEC2Instances pkg s b = (Some err, s)
      \<and> handleEC2Discovery pkg s (b # rest) =
          handleEC2Discovery pkg
            (s\<lparr>Log := Log s @
                 [(DebugLevel, ''EC2 instances discovered (AccountID: %s, Instances: %v), starting installation''),
                  (DebugLevel, ''All discovered EC2 instances are already part of the cluster.'')]\<rparr>) rest"
  proof (intro impI conjI)
    assume h: "GetAWSSSMClient (CloudClients s) (Region b) = Inl err \<and> IsNotFound err"
    then have h1: "GetAWSSSMClient (CloudClients s) (Region b) = Inl err" and h2: "IsNotFound err"
      by (simp_all only: simp_thms)
    show "handleEC2Instances pkg s b = (Some err, s)"
      by (rule handleEC2_client_failure_loop(1) [OF h1 h2])
    show "handleEC2Discovery pkg s (b # rest) =
          handleEC2Discovery pkg
            (s\<lparr>Log := Log s @
                 [(DebugLevel, ''EC2 instances discovered (AccountID: %s, Instances: %v), starting installation''),
                  (DebugLevel, ''All discovered EC2 instances are already part of the cluster.'')]\<rparr>) rest"
      by (rule handleEC2_client_failure_loop(2) [OF h1 h2])
  qed
  have a1: "GetAzureRunCommandClient (CloudClients s) (SubscriptionID ab) \<noteq> Inl errNoInstances
      \<and> (\<forall>runs req. azureInstaller s runs req \<noteq> Some errNoInstances) \<longrightarrow>
      (fst (handleAzureInstances pkg s ab) = Some errNoInstances) =
        ((\<exists>client. GetAzureRunCommandClient (CloudClients s) (SubscriptionID ab) = Inr client)
         \<and> az_Instances (filterExistingAzureNodes s ab) = [])"
  proof
    assume h: "GetAzureRunCommandClient (CloudClients s) (SubscriptionID ab) \<noteq> Inl errNoInstances
      \<and> (\<forall>runs req. azureInstaller s runs req \<noteq> Some errNoInstances)"
    show "(fst (handleAzureInstances pkg s ab) = Some errNoInstances) =
        ((\<exists>client. GetAzureRunCommandClient (CloudClients s) (SubscriptionID ab) = Inr client)
         \<and> az_Instances (filterExistingAzureNodes s ab) = [])"
      by (rule handleAzure_sentinel [OF conjunct1 [OF h] conjunct2 [OF h]])
  qed
  have a2: "handleAzureInstances pkg
        (logf DebugLevel ''Azure instances discovered (SubscriptionID: %s, Instances: %v), starting installation'' s)
        ab = (Some aerr, as2) \<and> aerr \<noteq> errNoInstances \<longrightarrow>
      handleAzureDiscovery pkg s (ab # arest) =
        handleAzureDiscovery pkg (logf ErrorLevel ''Failed to enroll discovered Azure VMs.'' as2) arest"
  proof
    assume h: "handleAzureInstances pkg
        (logf DebugLevel ''Azure instances discovered (SubscriptionID: %s, Instances: %v), starting installation'' s)
        ab = (Some aerr, as2) \<and> aerr \<noteq> errNoInstances"
    show "handleAzureDiscovery pkg s (ab # arest) =
        handleAzureDiscovery pkg (logf ErrorLevel ''Failed to enroll discovered Azure VMs.'' as2) arest"
      by (rule handleAzure_failure_loop [OF conjunct1 [OF h] conjunct2 [OF h]])
  qed
  have g1: "GetGCPInstancesClient (CloudClients s) \<noteq> Inl errNoInstances
      \<and> (\<forall>runs req. gcpInstaller s runs req \<noteq> Some errNoInstances) \<longrightarrow>
      (fst (handleGCPInstances pkg s gb) = Some errNoInstances) =
        ((\<exists>client. GetGCPInstancesClient (CloudClients s) = Inr client)
         \<and> gcp_Instances (filterExistingGCPNodes s gb) = [])"
  proof
    assume h: "GetGCPInstancesClient (CloudClients s) \<noteq> Inl errNoInstances
      \<and> (\<forall>runs req. gcpInstaller s runs req \<noteq> Some errNoInstances)"
    show "(fst (handleGCPInstances pkg s gb) = Some errNoInstances) =
        ((\<exists>client. GetGCPInstancesClient (CloudClients s) = Inr client)
         \<and> gcp_Instances (filterExistingGCPNodes s gb) = [])"
      by (rule handleGCP_sentinel [OF conjunct1 [OF h] conjunct2 [OF h]])
  qed
  have g2: "handleGCPInstances pkg
        (logf DebugLevel ''GCP instances discovered (ProjectID: %s, Instances %v), starting installation'' s)
        gb = (Some gerr, gs2) \<and> gerr \<noteq> errNoInstances \<longrightarrow>
      handleGCPDiscovery pkg s (gb # grest) =
        handleGCPDiscovery pkg (logf ErrorLevel ''Failed to enroll discovered GCP VMs.'' gs2) grest"
  proof
    assume h: "handleGCPInstances pkg
        (logf DebugLevel ''GCP instances discovered (ProjectID: %s, Instances %v), starting installation'' s)
        gb = (Some gerr, gs2) \<and> gerr \<noteq> errNoInstances"
    show "handleGCPDiscovery pkg s (gb # grest) =
        handleGCPDiscovery pkg (logf ErrorLevel ''Failed to enroll discovered GCP VMs.'' gs2) grest"
      by (rule handleGCP_failure_loop [OF conjunct1 [OF h] conjunct2 [OF h]])
  qed
  from e1 e2 a1 a2 g1 g2 show ?thesis by (intro conjI)
qed

theorem ec2_failure_logged_as_no_new_instances_witness:
  "fst (handleEC2Instances scenarioPkg (scenarioFailingServer (NotFound ''document not found'') [])
          (scenarioBatch [''i-9''])) = Some (NotFound ''document not found'')
   \<and> map ssm_Instances
        (ec2Runs (snd (handleEC2Instances scenarioPkg
           (scenarioFailingServer (NotFound ''document not found'') []) (scenarioBatch [''i-9'']))))
       = [[\<lparr>InstanceID = ''i-9''\<rparr>]]
   \<and> Log (handleEC2Discovery scenarioPkg (scenarioFailingServer (NotFound ''document not found'') [])
          [scenarioBatch [''i-9'']])
       = [(DebugLevel, ''EC2 instances discovered (AccountID: %s, Instances: %v), starting installation''),
          (DebugLevel, ''Running Teleport installation on these instances: AccountID: %s, Instances: %s''),
          (DebugLevel, ''All discovered EC2 instances are already part of the cluster.'')]
   \<and> Log (handleEC2Discovery scenarioPkg
          ((scenarioServer [])\<lparr>CloudClients :=
             scenarioClients\<lparr>GetAWSSSMClient := (\<lambda>region. Inl (NotFound ''no credentials''))\<rparr>\<rparr>)
          [scenarioBatch [''i-9'']])
       = [(DebugLevel, ''EC2 instances discovered (AccountID: %s, Instances: %v), starting installation''),
          (DebugLevel, ''All discovered EC2 instances are already part of the cluster.'')]
   \<and> fst (handleAzureInstances scenarioPkg (scenarioServer scenarioInventory)
          (scenarioAzureBatch [''vm-1''])) = Some errNoInstances
   \<and> fst (handleAzureInstances scenarioPkg (scenarioFailingServer (NotFound ''document not found'') [])
          (scenarioAzureBatch [''vm-9''])) \<noteq> Some errNoInstances
   \<and> Log (handleAzureDiscovery scenarioPkg (scenarioFailingServer (NotFound ''document not found'') [])
          [scenarioAzureBatch [''vm-9'']])
       = [(DebugLevel, ''Azure instances discovered (SubscriptionID: %s, Instances: %v), starting installation''),
          (DebugLevel, ''Running Teleport installation on these virtual machines: SubscriptionID: %s, VMs: %s''),
          (ErrorLevel, ''Failed to enroll discovered Azure VMs.'')]
   \<and> fst (handleGCPInstances scenarioPkg (scenarioServer scenarioInventory)
          (scenarioGCPBatch [''vm-1''])) = Some errNoInstances
   \<and> fst (handleGCPInstances scenarioPkg (scenarioFailingServer (NotFound ''document not found'') [])
          (scenarioGCPBatch [''vm-9''])) \<noteq> Some errNoInstances
   \<and> Log (handleGCPDiscovery scenarioPkg (scenarioFailingServer (NotFound ''document not found'') [])
          [scenarioGCPBatch [''vm-9'']])
       = [(DebugLevel, ''GCP instances discovered (ProjectID: %s, Instances %v), starting installation''),
          (DebugLevel, ''Running Teleport installation on these virtual machines: ProjectID: %s, VMs: %s''),
          (ErrorLevel, ''Failed to enroll discovered GCP VMs.'')]"
proof -
  let ?err = "NotFound ''document not found''"
  let ?fs = "scenarioFailingServer ?err []"
  let ?cs = "(scenarioServer [])\<lparr>CloudClients :=
             scenarioClients\<lparr>GetAWSSSMClient := (\<lambda>region. Inl (NotFound ''no credentials''))\<rparr>\<rparr>"
  let ?inv = "scenarioServer scenarioInventory"
  let ?b = "scenarioBatch [''i-9'']"
  let ?ab = "scenarioAzureBatch [''vm-9'']"
  let ?gb = "scenarioGCPBatch [''vm-9'']"
  let ?adisc = "''Azure instances discovered (SubscriptionID: %s, Instances: %v), starting installation''"
  let ?gdisc = "''GCP instances discovered (ProjectID: %s, Instances %v), starting installation''"
  note defs = scenario_defs scenarioFailingServer_def scenarioInventory_def scenarioAzureBatch_def
    scenarioGCPBatch_def enrolledAzureNode_def enrolledGCPNode_def
  have lg: "Log (logf lvl msg st) = Log st @ [(lvl, msg)]"
    for lvl msg and st :: "(unit, unit, string, string) Server"
    by (simp add: logf_def)
  have h1: "GetAWSSSMClient (CloudClients ?fs) (Region ?b) = Inr () \<and> ServerInfos scenarioPkg ?b = Inr [()]
      \<and> ec2_kept (nodeWatcher ?fs) ?b \<noteq> []
      \<and> ec2Installer ?fs (ec2Runs ?fs) (ec2_request () ?b (ec2_kept (nodeWatcher ?fs) ?b)) = Some ?err
      \<and> IsNotFound ?err"
    by (simp add: defs ec2_kept_def known_ec2_def IsNotFound_def)
  note t1 = ec2_failure_logged_as_no_new_instances [where s = ?fs and b = ?b and c = "()"
      and pkg = scenarioPkg and si = "[()]" and err = ?err and rest = "[]",
      THEN conjunct1, rule_format, OF h1]
  have k: "ec2_kept (nodeWatcher ?fs) ?b = [\<lparr>InstanceID = ''i-9''\<rparr>]"
    by (simp add: defs ec2_kept_def known_ec2_def)
  have r1: "fst (handleEC2Instances scenarioPkg ?fs ?b) = Some ?err"
    by (simp add: t1 [THEN conjunct1])
  have r2: "map ssm_Instances (ec2Runs (snd (handleEC2Instances scenarioPkg ?fs ?b)))
       = [[\<lparr>InstanceID = ''i-9''\<rparr>]]"
    by (simp add: t1 [THEN conjunct1] k ec2_request_def) (simp add: defs)
  have r3: "Log (handleEC2Discovery scenarioPkg ?fs [?b])
       = [(DebugLevel, ''EC2 instances discovered (AccountID: %s, Instances: %v), starting installation''),
          (DebugLevel, ''Running Teleport installation on these instances: AccountID: %s, Instances: %s''),
          (DebugLevel, ''All discovered EC2 instances are already part of the cluster.'')]"
    by (simp only: t1 [THEN conjunct2] handleEC2Discovery.simps(1)) (simp add: defs)
  have h2: "GetAWSSSMClient (CloudClients ?cs) (Region ?b) = Inl (NotFound ''no credentials'')
      \<and> IsNotFound (NotFound ''no credentials'')"
    by (simp add: defs IsNotFound_def)
  note t2 = ec2_failure_logged_as_no_new_instances [where s = ?cs and b = ?b
      and pkg = scenarioPkg and err = "NotFound ''no credentials''" and rest = "[]",
      THEN conjunct2, THEN conjunct1, rule_format, OF h2]
  have r4: "Log (handleEC2Discovery scenarioPkg ?cs [?b])
       = [(DebugLevel, ''EC2 instances discovered (AccountID: %s, Instances: %v), starting installation''),
          (DebugLevel, ''All discovered EC2 instances are already part of the cluster.'')]"
    by (simp only: t2 [THEN conjunct2] handleEC2Discovery.simps(1)) (simp add: defs)
  have h3: "GetAzureRunCommandClient (CloudClients ?inv) (SubscriptionID (scenarioAzureBatch [''vm-1'']))
        \<noteq> Inl errNoInstances
      \<and> (\<forall>runs req. azureInstaller ?inv runs req \<noteq> Some errNoInstances)"
    by (simp add: defs)
  note t3 = ec2_failure_logged_as_no_new_instances [where s = ?inv
      and ab = "scenarioAzureBatch [''vm-1'']" and pkg = scenarioPkg,
      THEN conjunct2, THEN conjunct2, THEN conjunct1, rule_format, OF h3]
  have r5: "fst (handleAzureInstances scenarioPkg ?inv (scenarioAzureBatch [''vm-1''])) = Some errNoInstances"
    unfolding t3
    by (simp add: defs filterExistingAzureNodes_def GetNodes_def MatchLabels_def
          GetLabel_def StringValue_def label_defs)
  have h4: "GetAzureRunCommandClient (CloudClients ?fs) (SubscriptionID ?ab) \<noteq> Inl errNoInstances
      \<and> (\<forall>runs req. azureInstaller ?fs runs req \<noteq> Some errNoInstances)"
    by (simp add: defs errNoInstances_def)
  note t4 = ec2_failure_logged_as_no_new_instances [where s = ?fs and ab = ?ab and pkg = scenarioPkg,
      THEN conjunct2, THEN conjunct2, THEN conjunct1, rule_format, OF h4]
  have r6: "fst (handleAzureInstances scenarioPkg ?fs ?ab) \<noteq> Some errNoInstances"
    unfolding t4
    by (simp add: defs filterExistingAzureNodes_def GetNodes_def)
  have a5: "fst (handleAzureInstances scenarioPkg (logf DebugLevel ?adisc ?fs) ?ab) = Some ?err"
    by (simp add: defs handleAzureInstances_def filterExistingAzureNodes_def GetNodes_def
          Let_def logf_def)
  have l5: "Log (snd (handleAzureInstances scenarioPkg (logf DebugLevel ?adisc ?fs) ?ab)) =
      [(DebugLevel, ?adisc),
       (DebugLevel, ''Running Teleport installation on these virtual machines: SubscriptionID: %s, VMs: %s'')]"
    by (simp add: defs handleAzureInstances_def filterExistingAzureNodes_def GetNodes_def
          Let_def logf_def)
  have h5: "handleAzureInstances scenarioPkg (logf DebugLevel ?adisc ?fs) ?ab
        = (Some ?err, snd (handleAzureInstances scenarioPkg (logf DebugLevel ?adisc ?fs) ?ab))
      \<and> ?err \<noteq> errNoInstances"
    using a5 by (simp add: prod_eq_iff errNoInstances_def)
  note t5 = ec2_failure_logged_as_no_new_instances [where s = ?fs and ab = ?ab and pkg = scenarioPkg
      and aerr = ?err and arest = "[]"
      and ?as2.0 = "snd (handleAzureInstances scenarioPkg (logf DebugLevel ?adisc ?fs) ?ab)",
      THEN conjunct2, THEN conjunct2, THEN conjunct2, THEN conjunct1, rule_format, OF h5]
  have r7: "Log (handleAzureDiscovery scenarioPkg ?fs [?ab])
       = [(DebugLevel, ?adisc),
          (DebugLevel, ''Running Teleport installation on these virtual machines: SubscriptionID: %s, VMs: %s''),
          (ErrorLevel, ''Failed to enroll discovered Azure VMs.'')]"
    by (simp only: t5 handleAzureDiscovery.simps(1) lg l5 append.simps)
  have h6: "GetGCPInstancesClient (CloudClients ?inv) \<noteq> Inl errNoInstances
      \<and> (\<forall>runs req. gcpInstaller ?inv runs req \<noteq> Some errNoInstances)"
    by (simp add: defs)
  note t6 = ec2_failure_logged_as_no_new_instances [where s = ?inv
      and gb = "scenarioGCPBatch [''vm-1'']" and pkg = scenarioPkg,
      THEN conjunct2, THEN conjunct2, THEN conjunct2, THEN conjunct2, THEN conjunct1,
      rule_format, OF h6]
  have r8: "fst (handleGCPInstances scenarioPkg ?inv (scenarioGCPBatch [''vm-1''])) = Some errNoInstances"
    unfolding t6
    by (simp add: defs filterExistingGCPNodes_def GetNodes_def MatchLabels_def
          GetLabel_def label_defs)
  have h7: "GetGCPInstancesClient (CloudClients ?fs) \<noteq> Inl errNoInstances
      \<and> (\<forall>runs req. gcpInstaller ?fs runs req \<noteq> Some errNoInstances)"
    by (simp add: defs errNoInstances_def)
  note t7 = ec2_failure_logged_as_no_new_instances [where s = ?fs and gb = ?gb and pkg = scenarioPkg,
      THEN conjunct2, THEN conjunct2, THEN conjunct2, THEN conjunct2, THEN conjunct1,
      rule_format, OF h7]
  have r9: "fst (handleGCPInstances scenarioPkg ?fs ?gb) \<noteq> Some errNoInstances"
    unfolding t7
    by (simp add: defs filterExistingGCPNodes_def GetNodes_def)
  have a8: "fst (handleGCPInstances scenarioPkg (logf DebugLevel ?gdisc ?fs) ?gb) = Some ?err"
    by (simp add: defs handleGCPInstances_def filterExistingGCPNodes_def GetNodes_def
          Let_def logf_def)
  have l8: "Log (snd (handleGCPInstances scenarioPkg (logf DebugLevel ?gdisc ?fs) ?gb)) =
      [(DebugLevel, ?gdisc),
       (DebugLevel, ''Running Teleport installation on these virtual machines: ProjectID: %s, VMs: %s'')]"
    by (simp add: defs handleGCPInstances_def filterExistingGCPNodes_def GetNodes_def
          Let_def logf_def)
  have h8: "handleGCPInstances scenarioPkg (logf DebugLevel ?gdisc ?fs) ?gb
        = (Some ?err, snd (handleGCPInstances scenarioPkg (logf DebugLevel ?gdisc ?fs) ?gb))
      \<and> ?err \<noteq> errNoInstances"
    using a8 by (simp add: prod_eq_iff errNoInstances_def)
  note t8 = ec2_failure_logged_as_no_new_instances [where s = ?fs and gb = ?gb and pkg = scenarioPkg
      and gerr = ?err and grest = "[]"
      and ?gs2.0 = "snd (handleGCPInstances scenarioPkg (logf DebugLevel ?gdisc ?fs) ?gb)",
      THEN conjunct2, THEN conjunct2, THEN conjunct2, THEN conjunct2, THEN conjunct2,
      rule_format, OF h8]
  have r10: "Log (handleGCPDiscovery scenarioPkg ?fs [?gb])
       = [(DebugLevel, ?gdisc),
          (DebugLevel, ''Running Teleport installation on these virtual machines: ProjectID: %s, VMs: %s''),
          (ErrorLevel, ''Failed to enroll discovered GCP VMs.'')]"
    by (simp only: t8 handleGCPDiscovery.simps(1) lg l8 append.simps)
  from r1 r2 r3 r4 r5 r6 r7 r8 r9 r10 show ?thesis by (intro conjI)
qed

subsection \<open>CA rotation\<close>

lemma rotation_step_fold:
  "(if After (LastRotated r)
        (if State r = RotationStateInProgress \<and> After (Started r) m then Started r else m)
    then LastRotated r
    else (if State r = RotationStateInProgress \<and> After (Started r) m then Started r else m))
   = fold max (ca_timestamps r) m"
  by (simp add: ca_timestamps_def After_def max_def)

lemma fold_max_zero:
  assumes "ts \<noteq> []"
  shows "fold max ts (0::nat) = Max (set ts)"
proof -
  have "fold max ts (0::nat) = Max (set (0 # ts))"
    by (simp only: Max.set_eq_fold)
  also have "\<dots> = max 0 (Max (set ts))"
    using assms by simp
  finally show ?thesis by simp
qed

lemma getMostRecentRotationForCAs_Max:
  assumes "GetCertAuthority (AccessPoint s) OpenSSHCA (ClusterName s) = Inr r1"
      and "GetCertAuthority (AccessPoint s) HostCA (ClusterName s) = Inr r2"
  shows "getMostRecentRotationForCAs s [OpenSSHCA, HostCA] =
           Inr (Max (set (ca_timestamps r1 @ ca_timestamps r2)))"
proof -
  have "getMostRecentRotationForCAs s [OpenSSHCA, HostCA] =
          Inr (fold max (ca_timestamps r2) (fold max (ca_timestamps r1) 0))"
    using assms
    by (simp add: getMostRecentRotationForCAs_def Let_def rotation_step_fold)
  also have "fold max (ca_timestamps r2) (fold max (ca_timestamps r1) 0)
      = fold max (ca_timestamps r1 @ ca_timestamps r2) 0"
    by simp
  also have "\<dots> = Max (set (ca_timestamps r1 @ ca_timestamps r2))"
    by (rule fold_max_zero) (simp add: ca_timestamps_def)
  finally show ?thesis .
qed

lemma findUnrotatedEC2Nodes_filter:
  assumes "getMostRecentRotationForCAs s [OpenSSHCA, HostCA] = Inr t"
  shows "findUnrotatedEC2Nodes s =
           (if unrotated_nodes t (nodeWatcher s) = [] then Inl (NotFound ''no unrotated nodes found'')
            else Inr (unrotated_nodes t (nodeWatcher s)))"
proof -
  have "GetNodes (nodeWatcher s)
                (\<lambda>n. if SubKind n \<noteq> SubKindOpenSSHNode then False
                      else if GetLabel n AWSAccountIDLabel = None then False
                      else if GetLabel n AWSInstanceIDLabel = None then False
                      else After t (LastRotated (NodeRotation n)))
        = unrotated_nodes t (nodeWatcher s)"
    unfolding GetNodes_def unrotated_nodes_def
    by (rule filter_cong) (auto simp add: GetLabel_def After_def)
  then show ?thesis using assms by (simp add: findUnrotatedEC2Nodes_def Let_def)
qed

lemma watchCARotation_tick_cases:
  assumes "getMostRecentRotationForCAs s [OpenSSHCA, HostCA] = Inr t"
  shows "watchCARotation_tick s =
           (if unrotated_nodes t (nodeWatcher s) = []
            then logf DebugLevel ''No OpenSSH nodes require CA rotation'' s
            else (logf DebugLevel ''Found %d nodes requiring rotation'' s)
                   \<lparr>caRotationCh := caRotationCh s @ [unrotated_nodes t (nodeWatcher s)]\<rparr>)"
  by (simp add: watchCARotation_tick_def findUnrotatedEC2Nodes_filter [OF assms] IsNotFound_def)

text \<open>
  Claim C4. On a tick on which both certificate authorities are read, the most recent
  rotation time is the maximum of the timestamps that count (the start of a rotation in
  progress, and the last rotation) over the OpenSSH and the Host authority.
  findUnrotatedEC2Nodes returns the OpenSSH nodes with the two AWS labels whose recorded
  last rotation is strictly before that maximum, so such a node is in the batch if and
  only if it was last rotated strictly before the maximum, and a node rotated at or after
  it is left out. When there is none the result is a not-found error, and the tick logs
  it at debug level and sends nothing; otherwise the tick sends the batch on the CA
  rotation channel.
\<close>

theorem ca_rotation_batch:
  assumes "GetCertAuthority (AccessPoint s) OpenSSHCA (ClusterName s) = Inr r1"
      and "GetCertAuthority (AccessPoint s) HostCA (ClusterName s) = Inr r2"
  shows "getMostRecentRotationForCAs s [OpenSSHCA, HostCA] =
           Inr (Max (set (ca_timestamps r1 @ ca_timestamps r2)))
    \<and> findUnrotatedEC2Nodes s =
        (if unrotated_nodes (Max (set (ca_timestamps r1 @ ca_timestamps r2))) (nodeWatcher s) = []
         then Inl (NotFound ''no unrotated nodes found'')
         else Inr (unrotated_nodes (Max (set (ca_timestamps r1 @ ca_timestamps r2))) (nodeWatcher s)))
    \<and> watchCARotation_tick s =
        (if unrotated_nodes (Max (set (ca_timestamps r1 @ ca_timestamps r2))) (nodeWatcher s) = []
         then logf DebugLevel ''No OpenSSH nodes require CA rotation'' s
         else (logf DebugLevel ''Found %d nodes requiring rotation'' s)
                \<lparr>caRotationCh := caRotationCh s @
                   [unrotated_nodes (Max (set (ca_timestamps r1 @ ca_timestamps r2))) (nodeWatcher s)]\<rparr>)
    \<and> (\<forall>n \<in> set (nodeWatcher s).
          SubKind n = SubKindOpenSSHNode \<and> Labels n AWSAccountIDLabel \<noteq> None
            \<and> Labels n AWSInstanceIDLabel \<noteq> None \<longrightarrow>
          (n \<in> set (unrotated_nodes (Max (set (ca_timestamps r1 @ ca_timestamps r2))) (nodeWatcher s))
             \<longleftrightarrow> LastRotated (NodeRotation n) < Max (set (ca_timestamps r1 @ ca_timestamps r2))))"
proof -
  note m = getMostRecentRotationForCAs_Max [OF assms]
  have "\<forall>n \<in> set (nodeWatcher s).
          SubKind n = SubKindOpenSSHNode \<and> Labels n AWSAccountIDLabel \<noteq> None
            \<and> Labels n AWSInstanceIDLabel \<noteq> None \<longrightarrow>
          (n \<in> set (unrotated_nodes (Max (set (ca_timestamps r1 @ ca_timestamps r2))) (nodeWatcher s))
             \<longleftrightarrow> LastRotated (NodeRotation n) < Max (set (ca_timestamps r1 @ ca_timestamps r2)))"
    by (simp add: unrotated_nodes_def del: not_None_eq)
  then show ?thesis
    using m findUnrotatedEC2Nodes_filter [OF m] watchCARotation_tick_cases [OF m] by blast
qed

theorem ca_rotation_batch_witness:
  "GetCertAuthority (AccessPoint (scenarioServer
       [enrolledEC2Node ''123456789012'' ''i-1'' 150, enrolledEC2Node ''123456789012'' ''i-2'' 180,
        enrolledEC2Node ''123456789012'' ''i-3'' 185])) OpenSSHCA ''cluster''
     = Inr \<lparr>State = RotationStateInProgress, Started = 180, LastRotated = 100\<rparr>
   \<and> GetCertAuthority (AccessPoint (scenarioServer
       [enrolledEC2Node ''123456789012'' ''i-1'' 150, enrolledEC2Node ''123456789012'' ''i-2'' 180,
        enrolledEC2Node ''123456789012'' ''i-3'' 185])) HostCA ''cluster''
     = Inr \<lparr>State = ''standby'', Started = 190, LastRotated = 120\<rparr>
   \<and> getMostRecentRotationForCAs (scenarioServer
       [enrolledEC2Node ''123456789012'' ''i-1'' 150, enrolledEC2Node ''123456789012'' ''i-2'' 180,
        enrolledEC2Node ''123456789012'' ''i-3'' 185]) [OpenSSHCA, HostCA] = Inr 180
   \<and> findUnrotatedEC2Nodes (scenarioServer
       [enrolledEC2Node ''123456789012'' ''i-1'' 150, enrolledEC2Node ''123456789012'' ''i-2'' 180,
        enrolledEC2Node ''123456789012'' ''i-3'' 185])
     = Inr [enrolledEC2Node ''123456789012'' ''i-1'' 150]
   \<and> caRotationCh (watchCARotation_tick (scenarioServer
       [enrolledEC2Node ''123456789012'' ''i-1'' 150, enrolledEC2Node ''123456789012'' ''i-2'' 180,
        enrolledEC2Node ''123456789012'' ''i-3'' 185]))
     = [[enrolledEC2Node ''123456789012'' ''i-1'' 150]]"
proof -
  have h1: "GetCertAuthority (AccessPoint (scenarioServer
       [enrolledEC2Node ''123456789012'' ''i-1'' 150, enrolledEC2Node ''123456789012'' ''i-2'' 180,
        enrolledEC2Node ''123456789012'' ''i-3'' 185])) OpenSSHCA
       (ClusterName (scenarioServer
       [enrolledEC2Node ''123456789012'' ''i-1'' 150, enrolledEC2Node ''123456789012'' ''i-2'' 180,
        enrolledEC2Node ''123456789012'' ''i-3'' 185]))
     = Inr \<lparr>State = RotationStateInProgress, Started = 180, LastRotated = 100\<rparr>"
    by (simp add: scenarioServer_def scenarioAccessPoint_def)
  have h2: "GetCertAuthority (AccessPoint (scenarioServer
       [enrolledEC2Node ''123456789012'' ''i-1'' 150, enrolledEC2Node ''123456789012'' ''i-2'' 180,
        enrolledEC2Node ''123456789012'' ''i-3'' 185])) HostCA
       (ClusterName (scenarioServer
       [enrolledEC2Node ''123456789012'' ''i-1'' 150, enrolledEC2Node ''123456789012'' ''i-2'' 180,
        enrolledEC2Node ''123456789012'' ''i-3'' 185]))
     = Inr \<lparr>State = ''standby'', Started = 190, LastRotated = 120\<rparr>"
    by (simp add: scenarioServer_def scenarioAccessPoint_def OpenSSHCA_def HostCA_def)
  have mx: "Max (set (ca_timestamps \<lparr>State = RotationStateInProgress, Started = 180, LastRotated = 100\<rparr>
             @ ca_timestamps \<lparr>State = ''standby'', Started = 190, LastRotated = 120\<rparr>)) = 180"
    by (simp add: ca_timestamps_def RotationStateInProgress_def)
  show ?thesis
    using ca_rotation_batch [OF h1 h2, unfolded mx] h1 h2
    by (simp add: unrotated_nodes_def scenarioServer_def enrolledEC2Node_def label_defs
          SubKindOpenSSHNode_def logf_def)
qed

subsection \<open>Dynamic matchers\<close>

lemmas dynamic_defs = scenarioDb_def scenarioDiscoveryConfig_def config_matchers_def
  database_matchers_def databaseFetchersFromMatchers_def upsertDynamicMatchers_def
  splitMatchers_def splitSlice_def GetTypes_def CopyWithTypes_def GetName_def

lemma fst_splitMatchers:
  "fst (splitMatchers ms P) = database_matchers P ms"
  by (simp add: splitMatchers_def splitMatchers_loop_filter database_matchers_def)

lemma databaseFetchersFromMatchers_derived:
  assumes "MakeAWSFetchers db (CloudClients s)
             (database_matchers (IsAWSMatcherType db) (AWS ms)) = Inr fa"
      and "MakeAzureFetchers db (CloudClients s)
             (database_matchers (IsAzureMatcherType db) (Azure ms)) = Inr fz"
  shows "databaseFetchersFromMatchers db s ms =
           Inr ((if database_matchers (IsAWSMatcherType db) (AWS ms) = [] then [] else fa)
              @ (if database_matchers (IsAzureMatcherType db) (Azure ms) = [] then [] else fz))"
  using assms by (simp add: databaseFetchersFromMatchers_def Let_def fst_splitMatchers)

lemma upsertDynamicMatchers_cases:
  "upsertDynamicMatchers db s dc =
     (case databaseFetchersFromMatchers db s (config_matchers dc) of
        Inl err \<Rightarrow> (Some err, s)
      | Inr fs \<Rightarrow> (None, s\<lparr>dynamicDatabaseFetchers := (dynamicDatabaseFetchers s)(dc_Name dc \<mapsto> fs)\<rparr>))"
  by (simp add: upsertDynamicMatchers_def config_matchers_def Let_def)

lemma loop_put_other_group:
  assumes "Type ev = OpPut" and "Resource ev = DiscoveryConfigResource dc"
      and "dc_DiscoveryGroup dc \<noteq> DiscoveryGroup s"
  shows "dynamicWatcherUpdater_loop db s (EventSignal ev # signals) =
           dynamicWatcherUpdater_loop db
             (s\<lparr>dynamicDatabaseFetchers := (dynamicDatabaseFetchers s)(dc_Name dc := None)\<rparr>) signals"
  using assms by (simp add: GetName_def)

lemma loop_put_same_group_ok:
  assumes "Type ev = OpPut" and "Resource ev = DiscoveryConfigResource dc"
      and "dc_DiscoveryGroup dc = DiscoveryGroup s"
      and "databaseFetchersFromMatchers db s (config_matchers dc) = Inr fs"
  shows "dynamicWatcherUpdater_loop db s (EventSignal ev # signals) =
           dynamicWatcherUpdater_loop db
             (s\<lparr>dynamicDatabaseFetchers := (dynamicDatabaseFetchers s)(dc_Name dc \<mapsto> fs)\<rparr>) signals"
  using assms by (simp add: upsertDynamicMatchers_cases)

lemma loop_put_same_group_failed:
  assumes "Type ev = OpPut" and "Resource ev = DiscoveryConfigResource dc"
      and "dc_DiscoveryGroup dc = DiscoveryGroup s"
      and "databaseFetchersFromMatchers db s (config_matchers dc) = Inl err"
  shows "dynamicWatcherUpdater_loop db s (EventSignal ev # signals) =
           dynamicWatcherUpdater_loop db
             (logf WarnLevel ''failed to update dynamic matchers for discovery config %q'' s) signals"
  using assms by (simp add: upsertDynamicMatchers_cases)

lemma loop_delete:
  assumes "Type ev = OpDelete"
  shows "dynamicWatcherUpdater_loop db s (EventSignal ev # signals) =
           dynamicWatcherUpdater_loop db
             (s\<lparr>dynamicDatabaseFetchers :=
                  (dynamicDatabaseFetchers s)(GetName (Resource ev) := None)\<rparr>) signals"
  using assms by simp

lemma loop_unknown:
  assumes "Type ev \<noteq> OpPut" and "Type ev \<noteq> OpDelete"
  shows "dynamicWatcherUpdater_loop db s (EventSignal ev # signals) =
           dynamicWatcherUpdater_loop db (logf WarnLevel ''Skipping unknown event type %s'' s) signals"
  using assms by (cases "Type ev") simp_all

lemma loop_append:
  "dynamicWatcherUpdater_loop db s (pre @ signals) =
     (case dynamicWatcherUpdater_loop db s pre of
        (Returned, s') \<Rightarrow> (Returned, s')
      | (Waiting, s') \<Rightarrow> dynamicWatcherUpdater_loop db s' signals)"
  by (induction db s pre rule: dynamicWatcherUpdater_loop.induct)
     (auto split: OpType.splits Resource.splits option.splits prod.splits)

text \<open>
  Claim C5, as the code has it. In the event loop, for the next event received: a put of
  a discovery configuration whose group is the group of the server, when the fetchers
  are built from its matcher set, replaces the entry of the table for its name by these
  fetchers, and when building them fails, is logged as a warning and leaves the table as
  it was; the fetchers built are those that package db makes for the AWS matchers and
  for the Azure matchers of the configuration, each restricted to its database types;
  a put of a configuration of another group deletes the entry of its name; a delete
  event deletes the entry of the name of its resource; an event of any other type is
  logged as a warning and skipped. In every case the loop goes on with the events that
  follow.
\<close>

theorem dynamic_matcher_events:
  "(Type ev = OpPut \<and> Resource ev = DiscoveryConfigResource dc
      \<and> dc_DiscoveryGroup dc = DiscoveryGroup s
      \<and> databaseFetchersFromMatchers db s (config_matchers dc) = Inr fs \<longrightarrow>
      dynamicWatcherUpdater_loop db s (EventSignal ev # signals) =
        dynamicWatcherUpdater_loop db
          (s\<lparr>dynamicDatabaseFetchers := (dynamicDatabaseFetchers s)(dc_Name dc \<mapsto> fs)\<rparr>) signals)
   \<and> (Type ev = OpPut \<and> Resource ev = DiscoveryConfigResource dc
      \<and> dc_DiscoveryGroup dc = DiscoveryGroup s
      \<and> databaseFetchersFromMatchers db s (config_matchers dc) = Inl err \<longrightarrow>
      dynamicWatcherUpdater_loop db s (EventSignal ev # signals) =
        dynamicWatcherUpdater_loop db
          (logf WarnLevel ''failed to update dynamic matchers for discovery config %q'' s) signals)
   \<and> (MakeAWSFetchers db (CloudClients s)
          (database_matchers (IsAWSMatcherType db) (AWS (config_matchers dc))) = Inr fa
      \<and> MakeAzureFetchers db (CloudClients s)
          (database_matchers (IsAzureMatcherType db) (Azure (config_matchers dc))) = Inr fz \<longrightarrow>
      databaseFetchersFromMatchers db s (config_matchers dc) =
        Inr ((if database_matchers (IsAWSMatcherType db) (AWS (config_matchers dc)) = []
              then [] else fa)
           @ (if database_matchers (IsAzureMatcherType db) (Azure (config_matchers dc)) = []
              then [] else fz)))
   \<and> (Type ev = OpPut \<and> Resource ev = DiscoveryConfigResource dc
      \<and> dc_DiscoveryGroup dc \<noteq> DiscoveryGroup s \<longrightarrow>
      dynamicWatcherUpdater_loop db s (EventSignal ev # signals) =
        dynamicWatcherUpdater_loop db
          (s\<lparr>dynamicDatabaseFetchers := (dynamicDatabaseFetchers s)(dc_Name dc := None)\<rparr>) signals)
   \<and> (Type ev = OpDelete \<longrightarrow>
      dynamicWatcherUpdater_loop db s (EventSignal ev # signals) =
        dynamicWatcherUpdater_loop db
          (s\<lparr>dynamicDatabaseFetchers :=
               (dynamicDatabaseFetchers s)(GetName (Resource ev) := None)\<rparr>) signals)
   \<and> (Type ev \<noteq> OpPut \<and> Type ev \<noteq> OpDelete \<longrightarrow>
      dynamicWatcherUpdater_loop db s (EventSignal ev # signals) =
        dynamicWatcherUpdater_loop db (logf WarnLevel ''Skipping unknown event type %s'' s) signals)"
  using loop_put_same_group_ok [of ev dc s db fs signals]
    loop_put_same_group_failed [of ev dc s db err signals]
    databaseFetchersFromMatchers_derived [of db s "config_matchers dc" fa fz]
    loop_put_other_group [of ev dc s db signals]
    loop_delete [of ev db s signals]
    loop_unknown [of ev db s signals]
  by blast

theorem dynamic_matcher_events_witness:
  "dynamicDatabaseFetchers (snd (dynamicWatcherUpdater_loop scenarioDb (scenarioServer [])
       [EventSignal \<lparr>Type = OpPut, Resource = DiscoveryConfigResource (scenarioDiscoveryConfig ''g1'')\<rparr>]))
     ''dc1'' = Some [''azure/mysql'']
   \<and> dynamicDatabaseFetchers (snd (dynamicWatcherUpdater_loop
       (scenarioDb\<lparr>MakeAzureFetchers := (\<lambda>clients ms. Inl (Failure ''no credentials''))\<rparr>)
       ((scenarioServer [])\<lparr>dynamicDatabaseFetchers := [''dc1'' \<mapsto> [''azure/postgres'']]\<rparr>)
       [EventSignal \<lparr>Type = OpPut, Resource = DiscoveryConfigResource (scenarioDiscoveryConfig ''g1'')\<rparr>]))
     ''dc1'' = Some [''azure/postgres'']
   \<and> dynamicDatabaseFetchers (snd (dynamicWatcherUpdater_loop scenarioDb
       ((scenarioServer [])\<lparr>dynamicDatabaseFetchers := [''dc1'' \<mapsto> [''azure/mysql'']]\<rparr>)
       [EventSignal \<lparr>Type = OpPut, Resource = DiscoveryConfigResource (scenarioDiscoveryConfig ''g2'')\<rparr>]))
     ''dc1'' = None
   \<and> dynamicDatabaseFetchers (snd (dynamicWatcherUpdater_loop scenarioDb
       ((scenarioServer [])\<lparr>dynamicDatabaseFetchers := [''dc1'' \<mapsto> [''azure/mysql'']]\<rparr>)
       [EventSignal \<lparr>Type = OpDelete, Resource = OtherResource ''dc1''\<rparr>]))
     ''dc1'' = None
   \<and> dynamicDatabaseFetchers (snd (dynamicWatcherUpdater_loop scenarioDb
       ((scenarioServer [])\<lparr>dynamicDatabaseFetchers := [''dc1'' \<mapsto> [''azure/mysql'']]\<rparr>)
       [EventSignal \<lparr>Type = OpGet, Resource = OtherResource ''dc1''\<rparr>]))
     ''dc1'' = Some [''azure/mysql'']"
proof -
  let ?put1 = "\<lparr>Type = OpPut, Resource = DiscoveryConfigResource (scenarioDiscoveryConfig ''g1'')\<rparr>"
  let ?put2 = "\<lparr>Type = OpPut, Resource = DiscoveryConfigResource (scenarioDiscoveryConfig ''g2'')\<rparr>"
  let ?failing = "scenarioDb\<lparr>MakeAzureFetchers := (\<lambda>clients ms. Inl (Failure ''no credentials''))\<rparr>"
  let ?s1 = "(scenarioServer [])\<lparr>dynamicDatabaseFetchers := [''dc1'' \<mapsto> [''azure/mysql'']]\<rparr>"
  let ?s2 = "(scenarioServer [])\<lparr>dynamicDatabaseFetchers := [''dc1'' \<mapsto> [''azure/postgres'']]\<rparr>"
  have ok: "databaseFetchersFromMatchers scenarioDb (scenarioServer [])
              (config_matchers (scenarioDiscoveryConfig ''g1'')) = Inr [''azure/mysql'']"
    by (simp add: dynamic_defs Let_def)
  have broken: "databaseFetchersFromMatchers ?failing ?s2
              (config_matchers (scenarioDiscoveryConfig ''g1'')) = Inl (Failure ''no credentials'')"
    by (simp add: dynamic_defs Let_def)
  have g1: "dc_DiscoveryGroup (scenarioDiscoveryConfig ''g1'') = DiscoveryGroup (scenarioServer [])"
    and g1': "dc_DiscoveryGroup (scenarioDiscoveryConfig ''g1'') = DiscoveryGroup ?s2"
    and g2: "dc_DiscoveryGroup (scenarioDiscoveryConfig ''g2'') \<noteq> DiscoveryGroup ?s1"
    and nm: "dc_Name (scenarioDiscoveryConfig ''g1'') = ''dc1''"
    by (simp_all add: scenarioDiscoveryConfig_def scenarioServer_def)
  show ?thesis
    using dynamic_matcher_events [where ev = ?put1 and dc = "scenarioDiscoveryConfig ''g1''"
        and s = "scenarioServer []" and db = scenarioDb and fs = "[''azure/mysql'']"
        and signals = "[]"]
      dynamic_matcher_events [where ev = ?put1 and dc = "scenarioDiscoveryConfig ''g1''"
        and s = ?s2 and db = ?failing and err = "Failure ''no credentials''" and signals = "[]"]
      dynamic_matcher_events [where ev = ?put2 and dc = "scenarioDiscoveryConfig ''g2''"
        and s = ?s1 and db = scenarioDb and signals = "[]"]
      dynamic_matcher_events [where ev = "\<lparr>Type = OpDelete, Resource = OtherResource ''dc1''\<rparr>"
        and s = ?s1 and db = scenarioDb and signals = "[]"]
      dynamic_matcher_events [where ev = "\<lparr>Type = OpGet, Resource = OtherResource ''dc1''\<rparr>"
        and s = ?s1 and db = scenarioDb and signals = "[]"]
      ok broken g1 g1' g2
    by (simp add: scenarioDiscoveryConfig_def GetName_def logf_def
          del: dynamicWatcherUpdater_loop.simps(3))
qed

text \<open>
  The claim as it was stated fails when the fetchers cannot be built: a put of a
  configuration of the server's own group leaves the entry of its name as it was.
\<close>

theorem put_same_group_counterexample:
  "Type \<lparr>Type = OpPut, Resource = DiscoveryConfigResource (scenarioDiscoveryConfig ''g1'')\<rparr> = OpPut
   \<and> dc_DiscoveryGroup (scenarioDiscoveryConfig ''g1'')
       = DiscoveryGroup ((scenarioServer [])\<lparr>dynamicDatabaseFetchers := [''dc1'' \<mapsto> [''azure/postgres'']]\<rparr>)
   \<and> databaseFetchersFromMatchers
        (scenarioDb\<lparr>MakeAzureFetchers := (\<lambda>clients ms. Inl (Failure ''no credentials''))\<rparr>)
        ((scenarioServer [])\<lparr>dynamicDatabaseFetchers := [''dc1'' \<mapsto> [''azure/postgres'']]\<rparr>)
        (config_matchers (scenarioDiscoveryConfig ''g1'')) = Inl (Failure ''no credentials'')
   \<and> dynamicDatabaseFetchers (snd (dynamicWatcherUpdater_loop
        (scenarioDb\<lparr>MakeAzureFetchers := (\<lambda>clients ms. Inl (Failure ''no credentials''))\<rparr>)
        ((scenarioServer [])\<lparr>dynamicDatabaseFetchers := [''dc1'' \<mapsto> [''azure/postgres'']]\<rparr>)
        [EventSignal \<lparr>Type = OpPut,
           Resource = DiscoveryConfigResource (scenarioDiscoveryConfig ''g1'')\<rparr>]))
      = [''dc1'' \<mapsto> [''azure/postgres'']]"
  by (simp add: dynamic_defs scenarioServer_def Let_def logf_def)

text \<open>
  Claim C10. Let the loop receive a put event whose resource is not a discovery
  configuration, after any events \<open>pre\<close> and before any events \<open>later\<close>. Then
  the goroutine has returned; the table of dynamic fetchers is the table that the events
  before the put left; and the result is the same as if nothing had followed the put, so
  no later event changes the table. An event of a type other than put and delete, in
  contrast, is logged and skipped, and the loop goes on with what follows.
\<close>

theorem unexpected_resource_stops_updater:
  "Type bad = OpPut \<and> Resource bad = OtherResource name \<longrightarrow>
     fst (dynamicWatcherUpdater_loop db s (pre @ EventSignal bad # later)) = Returned
     \<and> dynamicDatabaseFetchers (snd (dynamicWatcherUpdater_loop db s (pre @ EventSignal bad # later)))
         = dynamicDatabaseFetchers (snd (dynamicWatcherUpdater_loop db s pre))
     \<and> dynamicWatcherUpdater_loop db s (pre @ EventSignal bad # later)
         = dynamicWatcherUpdater_loop db s (pre @ [EventSignal bad])
     \<and> (Type ev \<noteq> OpPut \<and> Type ev \<noteq> OpDelete \<longrightarrow>
          dynamicWatcherUpdater_loop db s (EventSignal ev # later) =
            dynamicWatcherUpdater_loop db (logf WarnLevel ''Skipping unknown event type %s'' s) later)"
proof (intro impI)
  assume bad: "Type bad = OpPut \<and> Resource bad = OtherResource name"
  obtain st s' where pre: "dynamicWatcherUpdater_loop db s pre = (st, s')"
    by (cases "dynamicWatcherUpdater_loop db s pre")
  have stop: "\<And>t sigs. dynamicWatcherUpdater_loop db t (EventSignal bad # sigs) =
      (Returned, logf WarnLevel ''dynamic matcher watcher: unexpected resource type %T'' t)"
    using bad by simp
  have a: "dynamicWatcherUpdater_loop db s (pre @ EventSignal bad # later) =
      (case st of Returned \<Rightarrow> (Returned, s')
       | Waiting \<Rightarrow> (Returned, logf WarnLevel ''dynamic matcher watcher: unexpected resource type %T'' s'))"
    by (simp add: loop_append pre stop split: updater.splits del: dynamicWatcherUpdater_loop.simps)
  have b: "dynamicWatcherUpdater_loop db s (pre @ [EventSignal bad]) =
      (case st of Returned \<Rightarrow> (Returned, s')
       | Waiting \<Rightarrow> (Returned, logf WarnLevel ''dynamic matcher watcher: unexpected resource type %T'' s'))"
    by (simp add: loop_append pre stop split: updater.splits del: dynamicWatcherUpdater_loop.simps)
  have c: "Type ev \<noteq> OpPut \<and> Type ev \<noteq> OpDelete \<longrightarrow>
          dynamicWatcherUpdater_loop db s (EventSignal ev # later) =
            dynamicWatcherUpdater_loop db (logf WarnLevel ''Skipping unknown event type %s'' s) later"
    using loop_unknown [of ev db s later] by blast
  show "fst (dynamicWatcherUpdater_loop db s (pre @ EventSignal bad # later)) = Returned
     \<and> dynamicDatabaseFetchers (snd (dynamicWatcherUpdater_loop db s (pre @ EventSignal bad # later)))
         = dynamicDatabaseFetchers (snd (dynamicWatcherUpdater_loop db s pre))
     \<and> dynamicWatcherUpdater_loop db s (pre @ EventSignal bad # later)
         = dynamicWatcherUpdater_loop db s (pre @ [EventSignal bad])
     \<and> (Type ev \<noteq> OpPut \<and> Type ev \<noteq> OpDelete \<longrightarrow>
          dynamicWatcherUpdater_loop db s (EventSignal ev # later) =
            dynamicWatcherUpdater_loop db (logf WarnLevel ''Skipping unknown event type %s'' s) later)"
    using c by (simp add: a b pre logf_def split: updater.splits del: dynamicWatcherUpdater_loop.simps)
qed

theorem unexpected_resource_stops_updater_witness:
  "Type \<lparr>Type = OpPut, Resource = OtherResource ''node-1''\<rparr> = OpPut
   \<and> Resource \<lparr>Type = OpPut, Resource = OtherResource ''node-1''\<rparr> = OtherResource ''node-1''
   \<and> fst (dynamicWatcherUpdater_loop scenarioDb (scenarioServer [])
       ([EventSignal \<lparr>Type = OpPut, Resource = DiscoveryConfigResource (scenarioDiscoveryConfig ''g1'')\<rparr>]
        @ EventSignal \<lparr>Type = OpPut, Resource = OtherResource ''node-1''\<rparr>
        # [EventSignal \<lparr>Type = OpDelete, Resource = OtherResource ''dc1''\<rparr>])) = Returned
   \<and> dynamicDatabaseFetchers (snd (dynamicWatcherUpdater_loop scenarioDb (scenarioServer [])
       ([EventSignal \<lparr>Type = OpPut, Resource = DiscoveryConfigResource (scenarioDiscoveryConfig ''g1'')\<rparr>]
        @ EventSignal \<lparr>Type = OpPut, Resource = OtherResource ''node-1''\<rparr>
        # [EventSignal \<lparr>Type = OpDelete, Resource = OtherResource ''dc1''\<rparr>]))) ''dc1''
      = Some [''azure/mysql'']
   \<and> Type \<lparr>Type = OpGet, Resource = OtherResource ''dc1''\<rparr> \<noteq> OpPut
   \<and> Type \<lparr>Type = OpGet, Resource = OtherResource ''dc1''\<rparr> \<noteq> OpDelete
   \<and> dynamicDatabaseFetchers (snd (dynamicWatcherUpdater_loop scenarioDb (scenarioServer [])
       (EventSignal \<lparr>Type = OpGet, Resource = OtherResource ''dc1''\<rparr>
        # [EventSignal \<lparr>Type = OpPut, Resource = DiscoveryConfigResource (scenarioDiscoveryConfig ''g1'')\<rparr>])))
       ''dc1''
      = Some [''azure/mysql'']"
proof -
  have one: "dynamicDatabaseFetchers (snd (dynamicWatcherUpdater_loop scenarioDb (scenarioServer [])
       [EventSignal \<lparr>Type = OpPut, Resource = DiscoveryConfigResource (scenarioDiscoveryConfig ''g1'')\<rparr>]))
      ''dc1'' = Some [''azure/mysql'']"
    by (simp add: dynamic_defs scenarioServer_def Let_def)
  have two: "dynamicDatabaseFetchers (snd (dynamicWatcherUpdater_loop scenarioDb
       (logf WarnLevel ''Skipping unknown event type %s'' (scenarioServer []))
       [EventSignal \<lparr>Type = OpPut, Resource = DiscoveryConfigResource (scenarioDiscoveryConfig ''g1'')\<rparr>]))
      ''dc1'' = Some [''azure/mysql'']"
    by (simp add: dynamic_defs scenarioServer_def Let_def logf_def)
  let ?bad = "\<lparr>Type = OpPut, Resource = OtherResource ''node-1''\<rparr>"
  let ?get = "\<lparr>Type = OpGet, Resource = OtherResource ''dc1''\<rparr>"
  let ?put = "\<lparr>Type = OpPut, Resource = DiscoveryConfigResource (scenarioDiscoveryConfig ''g1'')\<rparr>"
  let ?del = "\<lparr>Type = OpDelete, Resource = OtherResource ''dc1''\<rparr>"
  have hyp: "Type ?bad = OpPut \<and> Resource ?bad = OtherResource ''node-1''" by simp
  have hyp2: "Type ?get \<noteq> OpPut \<and> Type ?get \<noteq> OpDelete" by simp
  note t = unexpected_resource_stops_updater [where bad = ?bad and name = "''node-1''"
        and db = scenarioDb and s = "scenarioServer []" and pre = "[EventSignal ?put]"
        and later = "[EventSignal ?del]" and ev = ?get, rule_format, OF hyp]
  note u = unexpected_resource_stops_updater [where bad = ?bad and name = "''node-1''"
        and db = scenarioDb and s = "scenarioServer []" and pre = "[]"
        and later = "[EventSignal ?put]" and ev = ?get, rule_format, OF hyp]
  from t have t1: "fst (dynamicWatcherUpdater_loop scenarioDb (scenarioServer [])
       ([EventSignal ?put] @ EventSignal ?bad # [EventSignal ?del])) = Returned"
    by blast
  from t have "dynamicDatabaseFetchers (snd (dynamicWatcherUpdater_loop scenarioDb (scenarioServer [])
       ([EventSignal ?put] @ EventSignal ?bad # [EventSignal ?del])))
     = dynamicDatabaseFetchers (snd (dynamicWatcherUpdater_loop scenarioDb (scenarioServer [])
       [EventSignal ?put]))"
    by blast
  then have t2: "dynamicDatabaseFetchers (snd (dynamicWatcherUpdater_loop scenarioDb (scenarioServer [])
       ([EventSignal ?put] @ EventSignal ?bad # [EventSignal ?del]))) ''dc1'' = Some [''azure/mysql'']"
    using one by (simp only:)
  from u hyp2 have "dynamicWatcherUpdater_loop scenarioDb (scenarioServer [])
       (EventSignal ?get # [EventSignal ?put])
     = dynamicWatcherUpdater_loop scenarioDb
         (logf WarnLevel ''Skipping unknown event type %s'' (scenarioServer [])) [EventSignal ?put]"
    by blast
  then have u1: "dynamicDatabaseFetchers (snd (dynamicWatcherUpdater_loop scenarioDb (scenarioServer [])
       (EventSignal ?get # [EventSignal ?put]))) ''dc1'' = Some [''azure/mysql'']"
    using two by (simp only:)
  from hyp hyp2 t1 t2 u1 show ?thesis by blast
qed

subsection \<open>Construction\<close>

lemma CheckAndSetDefaults_no_matchers:
  assumes "IsEmpty (cfg_Matchers cfg) \<and> cfg_DiscoveryGroup cfg = []"
  shows "CheckAndSetDefaults out cfg =
           Inl (BadParameter ''no matchers or discovery group configured for discovery'')"
proof -
  have a: "(IsEmpty (cfg_Matchers cfg) \<and> cfg_DiscoveryGroup cfg = []) = True"
    using assms by blast
  show ?thesis
    unfolding CheckAndSetDefaults_def by (simp only: a if_True)
qed

lemma CheckAndSetDefaults_kube_without_group:
  assumes "length (Kubernetes (cfg_Matchers cfg)) > 0 \<and> cfg_DiscoveryGroup cfg = []"
  shows "CheckAndSetDefaults out cfg =
           Inl (BadParameter
             (if Emitter cfg = None then ''no Emitter configured for discovery''
              else if cfg_AccessPoint cfg = None then ''no AccessPoint configured for discovery''
              else ''the DiscoveryGroup name should be set for discovery server if\<newline>kubernetes matchers are present.''))"
proof -
  have g1: "(IsEmpty (cfg_Matchers cfg) \<and> cfg_DiscoveryGroup cfg = []) = False"
    using assms by (simp add: IsEmpty_def)
  have g4: "(length (Kubernetes (cfg_Matchers cfg)) > 0 \<and> cfg_DiscoveryGroup cfg = []) = True"
    using assms by blast
  show ?thesis
  proof (cases "Emitter cfg = None")
    case True
    then have e: "(Emitter cfg = None) = True" by blast
    show ?thesis
      unfolding CheckAndSetDefaults_def by (simp only: g1 e if_False if_True simp_thms)
  next
    case False
    then have e: "(Emitter cfg = None) = False" by blast
    show ?thesis
    proof (cases "cfg_AccessPoint cfg = None")
      case True
      then have a: "(cfg_AccessPoint cfg = None) = True" by blast
      show ?thesis
        unfolding CheckAndSetDefaults_def by (simp only: g1 e a if_False if_True simp_thms)
    next
      case False
      then have a: "(cfg_AccessPoint cfg = None) = False" by blast
      show ?thesis
        unfolding CheckAndSetDefaults_def by (simp only: g1 g4 e a if_False if_True simp_thms)
    qed
  qed
qed


lemma New_config_error:
  "CheckAndSetDefaults out cfg = Inl err \<Longrightarrow> New out cfg = Some (Inl err)"
  by (simp add: New_def)













text \<open>
  Claim C6. New returns a bad-parameter error, and no server, whenever the matcher set is
  empty and no discovery group is set, and whenever there is a Kubernetes matcher and no
  discovery group is set; in the second case the error is the one of the first check of
  CheckAndSetDefaults that fails: a missing emitter, a missing access point, or the
  missing discovery group. The error is returned whatever the collaborators outside
  would do: none of them is consulted, and nothing is tried again.
\<close>

theorem New_rejects_configuration:
  fixes out :: "('c, 'f) Outside" and cfg :: "('c, 'ev) Config"
  shows
  "(IsEmpty (cfg_Matchers cfg) \<and> cfg_DiscoveryGroup cfg = [] \<longrightarrow>
      (New out cfg :: (error + ('c, 'si, 'ev, 'f) Server) option) =
        Some (Inl (BadParameter ''no matchers or discovery group configured for discovery'')))
   \<and> (length (Kubernetes (cfg_Matchers cfg)) > 0 \<and> cfg_DiscoveryGroup cfg = [] \<longrightarrow>
      (New out cfg :: (error + ('c, 'si, 'ev, 'f) Server) option) =
        Some (Inl (BadParameter
          (if Emitter cfg = None then ''no Emitter configured for discovery''
           else if cfg_AccessPoint cfg = None then ''no AccessPoint configured for discovery''
           else ''the DiscoveryGroup name should be set for discovery server if\<newline>kubernetes matchers are present.''))))"
proof (intro conjI impI)
  assume a: "IsEmpty (cfg_Matchers cfg) \<and> cfg_DiscoveryGroup cfg = []"
  then have "CheckAndSetDefaults out cfg =
      Inl (BadParameter ''no matchers or discovery group configured for discovery'')"
    by (rule CheckAndSetDefaults_no_matchers)
  then show "(New out cfg :: (error + ('c, 'si, 'ev, 'f) Server) option) =
      Some (Inl (BadParameter ''no matchers or discovery group configured for discovery''))"
    by (rule New_config_error)
next
  assume a: "length (Kubernetes (cfg_Matchers cfg)) > 0 \<and> cfg_DiscoveryGroup cfg = []"
  then have "CheckAndSetDefaults out cfg =
      Inl (BadParameter
          (if Emitter cfg = None then ''no Emitter configured for discovery''
           else if cfg_AccessPoint cfg = None then ''no AccessPoint configured for discovery''
           else ''the DiscoveryGroup name should be set for discovery server if\<newline>kubernetes matchers are present.''))"
    by (rule CheckAndSetDefaults_kube_without_group)
  then show "(New out cfg :: (error + ('c, 'si, 'ev, 'f) Server) option) =
      Some (Inl (BadParameter
          (if Emitter cfg = None then ''no Emitter configured for discovery''
           else if cfg_AccessPoint cfg = None then ''no AccessPoint configured for discovery''
           else ''the DiscoveryGroup name should be set for discovery server if\<newline>kubernetes matchers are present.'')))"
    by (rule New_config_error)
qed

theorem New_rejects_configuration_witness:
  "IsEmpty (cfg_Matchers (scenarioConfig \<lparr>AWS = [], Azure = [], GCP = [], Kubernetes = []\<rparr> [] (Inr [])))
   \<and> cfg_DiscoveryGroup (scenarioConfig \<lparr>AWS = [], Azure = [], GCP = [], Kubernetes = []\<rparr> [] (Inr [])) = []
   \<and> (New scenarioOutside (scenarioConfig \<lparr>AWS = [], Azure = [], GCP = [], Kubernetes = []\<rparr> [] (Inr []))
        :: (error + (unit, unit, string, string) Server) option)
       = Some (Inl (BadParameter ''no matchers or discovery group configured for discovery''))
   \<and> length (Kubernetes (cfg_Matchers (scenarioConfig
        (scenarioMatchers\<lparr>Kubernetes := [\<lparr>Types = [''app''], Namespaces = [''*''],
                                             kube_Labels = [(''*'', [''*''])]\<rparr>]\<rparr>) [] (Inr [])))) > 0
   \<and> cfg_DiscoveryGroup (scenarioConfig
        (scenarioMatchers\<lparr>Kubernetes := [\<lparr>Types = [''app''], Namespaces = [''*''],
                                             kube_Labels = [(''*'', [''*''])]\<rparr>]\<rparr>) [] (Inr [])) = []
   \<and> (New scenarioOutside (scenarioConfig
        (scenarioMatchers\<lparr>Kubernetes := [\<lparr>Types = [''app''], Namespaces = [''*''],
                                             kube_Labels = [(''*'', [''*''])]\<rparr>]\<rparr>) [] (Inr []))
        :: (error + (unit, unit, string, string) Server) option)
       = Some (Inl (BadParameter ''the DiscoveryGroup name should be set for discovery server if\<newline>kubernetes matchers are present.''))"
proof -
  let ?none = "scenarioConfig \<lparr>AWS = [], Azure = [], GCP = [], Kubernetes = []\<rparr> [] (Inr [])"
  let ?kube = "scenarioConfig
        (scenarioMatchers\<lparr>Kubernetes := [\<lparr>Types = [''app''], Namespaces = [''*''],
                                             kube_Labels = [(''*'', [''*''])]\<rparr>]\<rparr>) [] (Inr [])"
  have h1: "IsEmpty (cfg_Matchers ?none) \<and> cfg_DiscoveryGroup ?none = []"
    by (simp add: scenarioConfig_def IsEmpty_def)
  have h2: "length (Kubernetes (cfg_Matchers ?kube)) > 0 \<and> cfg_DiscoveryGroup ?kube = []"
    by (simp add: scenarioConfig_def)
  have e: "Emitter ?kube \<noteq> None" and a: "cfg_AccessPoint ?kube \<noteq> None"
    by (simp_all add: scenarioConfig_def)
  note t1 = New_rejects_configuration [where cfg = ?none and out = scenarioOutside,
      THEN conjunct1, rule_format, OF h1]
  note t2 = New_rejects_configuration [where cfg = ?kube and out = scenarioOutside,
      THEN conjunct2, rule_format, OF h2]
  from t2 e a have t2': "(New scenarioOutside ?kube :: (error + (unit, unit, string, string) Server) option)
       = Some (Inl (BadParameter ''the DiscoveryGroup name should be set for discovery server if\<newline>kubernetes matchers are present.''))"
    by (simp only: if_False)
  from h1 h2 t1 t2' show ?thesis by (intro conjI) (simp_all only: simp_thms)
qed










end
